theory Spec2Isabelle
  imports Main "HOL-Library.Word"
begin

section \<open>Data model\<close>

text \<open>
  Go's \<^verbatim>\<open>uint64\<close> and \<^verbatim>\<open>int64\<close> are both 64-bit words; the signed reading of an
  \<^verbatim>\<open>int64\<close> is \<open>sint\<close>, its comparisons are \<open>word_sle\<close> and \<open>word_sless\<close>, and the
  conversion \<^verbatim>\<open>uint64(x)\<close> keeps the bits. \<^verbatim>\<open>uint\<close> is 64 bits wide on the platforms
  the library is built for.
\<close>

type_synonym byte = "8 word"
type_synonym uint64 = "64 word"
type_synonym int64 = "64 word"
type_synonym uint = "64 word"
type_synonym TigerHash = "byte list"

text \<open>
  The messages of the wire codec that the modelled handlers read or write. Modelled from
  the spec: the type and code constants of an ADC status are not among the sources; the
  spec names the warning type and the codes for full slots and for a file that is not
  available.
\<close>

datatype adcStatusType = adcStatusOk | adcStatusWarning | adcStatusFatal

datatype adcStatusCode = adcCodeSlotsFull | adcCodeFileNotAvailable | adcCodeOther nat

datatype msg =
    msgAdcCStatus adcStatusType adcStatusCode string
  | msgAdcCSupports
  | msgAdcCInfos "string \<rightharpoonup> string"
  | msgAdcCGetFile string uint64 int64 bool
  | msgAdcCSendFile string uint64 uint64 bool
  | msgNmdcMyNick string
  | msgNmdcSupports
  | msgNmdcDirection string uint
  | msgNmdcKey
  | msgNmdcGetFile string uint64 int64 bool
  | msgNmdcSendFile string uint64 uint64 bool
  | msgNmdcMaxedOut
  | msgNmdcError string
  | msgBinary "byte list"
  | msgOther

text \<open>
  Errors. \<^verbatim>\<open>fmt.Errorf\<close> with a constant or string-formatted message is \<open>Errorf\<close> with
  the formatted text; messages that print numbers or whole messages keep their arguments
  in a constructor of their own (\<open>ErrPeer\<close> is \<^verbatim>\<open>"error: %+v"\<close>, \<open>ErrUnhandled\<close> is
  \<^verbatim>\<open>"unhandled: %T %+v"\<close>). \<open>OsError\<close> is an error value handed back by the
  operating system or by a library routine, \<open>Panic\<close> a run-time panic.
\<close>

datatype error =
    errorTerminated
  | errorNoSlots
  | Errorf string
  | ErrWrongStart uint64 uint64
  | ErrWrongLength uint64 uint64
  | ErrBinaryTooLong uint64
  | ErrPeer msg
  | ErrUnhandled msg
  | OsError string
  | Panic string

text \<open>
  \<^verbatim>\<open>*Peer\<close>: the fields of a peer that the modelled code reads. A pointer to a peer is
  modelled by the peer's value.
\<close>

record Peer =
  Nick :: string
  adcClientId :: "byte list"
  adcFingerprint :: string

text \<open>References to the two kinds of transfer, and to peer connections, are addresses.\<close>

datatype transfer = DownloadRef nat | UploadRef nat

text \<open>
  The \<^verbatim>\<open>protocol\<close> object of a connection, as far as the code drives it: the messages
  written, the binary-read and zlib switches, and whether it was terminated.
\<close>

record protocol =
  written :: "msg list"
  readBinary :: bool
  readerZlib :: bool
  syncMode :: bool
  connTerminated :: bool

text \<open>
  \<^verbatim>\<open>connPeer\<close> (conn\_peer.go). \<open>p_wakeUp\<close> counts the signals held by the buffered
  channel; \<open>p_tlsPeerCertificates\<close> are the fingerprints of the certificates of the TLS
  session, in the order of \<^verbatim>\<open>ConnectionState().PeerCertificates\<close>.
\<close>

record connPeer =
  p_isEncrypted :: bool
  p_isActive :: bool
  p_wakeUp :: nat
  p_state :: string
  p_protoState :: string
  p_conn :: "protocol option"
  p_tlsPeerCertificates :: "string list"
  p_adcToken :: string
  p_peer :: "Peer option"
  p_localDirection :: string
  p_localBet :: uint
  p_remoteDirection :: string
  p_remoteBet :: uint
  p_direction :: string
  p_transfer :: "transfer option"

text \<open>\<^verbatim>\<open>DownloadConf\<close> and \<^verbatim>\<open>Download\<close> (download.go).\<close>

record DownloadConf =
  Peer :: Peer
  TTH :: TigerHash
  Start :: uint64
  Length :: int64
  SavePath :: string
  SkipValidation :: bool
  isFilelist :: bool

text \<open>
  The \<^verbatim>\<open>io.WriteCloser\<close> of a download: a file created at a path, or a writer over the
  in-memory buffer \<open>d_content\<close>. \<open>w_data\<close> is every byte the writer has accepted so far.
\<close>

datatype sink = FileSink string | RamSink

record writer =
  w_sink :: sink
  w_data :: "byte list"
  w_closed :: bool

record Download =
  d_conf :: DownloadConf
  d_terminateRequested :: bool
  d_terminate :: nat
  d_state :: string
  d_wakeUp :: nat
  d_activeDlChan :: nat
  d_slotChan :: nat
  d_pconn :: "nat option"
  d_query :: string
  d_adcToken :: string
  d_writer :: "writer option"
  d_content :: "byte list"
  d_offset :: uint64
  d_length :: uint64

text \<open>
  \<^verbatim>\<open>upload\<close> (upload.go). The \<^verbatim>\<open>io.ReadCloser\<close> is a reader over a byte buffer or an open
  file positioned by \<^verbatim>\<open>Seek\<close>.
\<close>

datatype reader = BytesReader "byte list" | FileReader string uint64

record upload =
  u_terminateRequested :: bool
  u_state :: string
  u_pconn :: nat
  u_reader :: "reader option"
  u_readerClosed :: bool
  u_isCompressed :: bool
  u_query :: string
  u_start :: uint64
  u_length :: uint64
  u_offset :: uint64

text \<open>The share tree: \<^verbatim>\<open>shareFile\<close>, \<^verbatim>\<open>shareDirectory\<close>, in the order of the \<^verbatim>\<open>range\<close> loops.\<close>

record shareFile =
  tth :: TigerHash
  realPath :: string
  sizeBytes :: uint64
  tthl :: "TigerHash list"

datatype shareDirectory = ShareDirectory (files: "shareFile list") (dirs: "shareDirectory list")

text \<open>The embedder's callbacks that the model records when they are invoked.\<close>

datatype callback = OnDownloadSuccessful nat | OnDownloadError nat

text \<open>
  \<^verbatim>\<open>Client\<close>, as far as the modelled code reads and writes it. Objects reached through
  pointers live in the stores \<open>dls\<close> (downloads), \<open>uls\<close> (uploads) and \<open>conns\<close> (peer
  connections), keyed by address. \<open>transfers\<close> is the set \<^verbatim>\<open>map[transfer]struct{}\<close>; a
  function that ranges over it takes the order of the visit as an argument, since Go
  leaves that order open. The slot counters are integers. \<open>hubRequests\<close> records the calls of
  \<^verbatim>\<open>peerRequestConnection\<close>, \<open>callbacks\<close> the invoked callbacks, and \<open>hasOnDownloadError\<close> /
  \<open>hasOnDownloadSuccessful\<close> say whether the embedder has set the callback.
\<close>

record Client =
  protoIsAdc :: bool
  PeerDisableCompression :: bool
  ownClientId :: "byte list"
  peers :: "Peer list"
  conns :: "nat \<rightharpoonup> connPeer"
  connPeersByKey :: "(string \<times> string) \<rightharpoonup> nat"
  dls :: "nat \<rightharpoonup> Download"
  uls :: "nat \<rightharpoonup> upload"
  transfers :: "transfer set"
  fileList :: "byte list"
  shareTree :: "shareDirectory list"
  activeDownloadsByPeer :: "string \<rightharpoonup> nat"
  downloadSlotAvail :: int
  uploadSlotAvail :: int
  hubRequests :: "(Peer \<times> string) list"
  callbacks :: "callback list"
  hasOnDownloadSuccessful :: bool
  hasOnDownloadError :: bool

text \<open>
  What the modelled code calls and the sources do not hold: the hash and base-32 routines,
  the bzip2 decoder and random tokens are parameters; the operating system is the files
  it holds (\<open>fs\<close>, threaded through the functions that write) and, for each call that
  can fail, the message of the error it hands back for a path (\<open>None\<close> when the call
  succeeds); such an error is the value \<open>OsError\<close> of that message. \<open>bunzip2\<close> gives the
  bytes it decoded and the error that stopped it, if any.
\<close>

record env =
  TTHFromBytes :: "byte list \<Rightarrow> TigerHash"
  TigerHashFromBase32 :: "string \<Rightarrow> string + TigerHash"
  TTHString :: "TigerHash \<Rightarrow> string"
  dcBase32Decode :: "string \<Rightarrow> byte list"
  dcBase32Encode :: "byte list \<Rightarrow> string"
  bunzip2 :: "byte list \<Rightarrow> byte list \<times> string option"
  adcRandomToken :: string
  Open_err :: "string \<Rightarrow> string option"
  Create_err :: "string \<Rightarrow> string option"
  Seek_err :: "string \<Rightarrow> uint64 \<Rightarrow> string option"
  Rename_err :: "string \<Rightarrow> string option"
  Remove_err :: "string \<Rightarrow> string option"

type_synonym fs = "string \<rightharpoonup> byte list"

section \<open>Peer connection: the handshake handlers (conn\_peer.go)\<close>

text \<open>
  \<^verbatim>\<open>Client.downloadPendingByPeer\<close> (download.go). The pointer it returns is the address
  of the download together with the download found there.
\<close>

definition downloadPendingByPeer :: "Client \<Rightarrow> Peer \<Rightarrow> (nat \<times> Download) option" where
  "downloadPendingByPeer c peer =
     (case activeDownloadsByPeer c (Nick peer) of
        None \<Rightarrow> None
      | Some a \<Rightarrow>
          (case dls c a of
             None \<Rightarrow> None
           | Some dl \<Rightarrow>
               if d_terminateRequested dl = False \<and> d_state dl = ''waiting_peer''
               then Some (a, dl) else None))"

text \<open>
  Modelled from the spec: \<^verbatim>\<open>Client.peerRequestConnection\<close> is not among the sources; it
  issues a hub-level connection request (\<^verbatim>\<open>ConnectToMe\<close> / \<^verbatim>\<open>RevConnectToMe\<close>, with the
  token on ADC) for the peer. The model records the request.
\<close>

definition peerRequestConnection :: "Client \<Rightarrow> Peer \<Rightarrow> string \<Rightarrow> Client" where
  "peerRequestConnection c peer token = c\<lparr>hubRequests := hubRequests c @ [(peer, token)]\<rparr>"




text \<open>
  \<^verbatim>\<open>handleMessage\<close>, case \<^verbatim>\<open>*msgNmdcKey\<close>, first half: the choice of the local variable
  \<^verbatim>\<open>direction\<close>. The result is the error or the direction, and the client (which the
  losing side of a bet may have changed by requesting another connection).
\<close>

definition nmdcKey_direction :: "Client \<Rightarrow> connPeer \<Rightarrow> (error + string) \<times> Client" where
  "nmdcKey_direction c p =
     (if p_localDirection p = ''upload'' \<and> p_remoteDirection p = ''download''
      then (Inr ''upload'', c)
      else if p_localDirection p = ''download'' \<and> p_remoteDirection p = ''upload''
      then (Inr ''download'', c)
      else if p_localDirection p = ''download'' \<and> p_remoteDirection p = ''download''
      then
        (if p_localBet p > p_remoteBet p then (Inr ''download'', c)
         else if p_localBet p < p_remoteBet p then
           (case p_peer p of
              None \<Rightarrow> (Inl (Panic ''nil pointer dereference''), c)
            | Some peer \<Rightarrow>
                (case downloadPendingByPeer c peer of
                   None \<Rightarrow> (Inr ''upload'', c)
                 | Some (da, dl) \<Rightarrow>
                     (Inr ''upload'', peerRequestConnection c (Peer (d_conf dl)) '''')))
         else (Inl (Errorf ''equal random numbers''), c))
      else (Inl (Errorf ''double upload request''), c))"

text \<open>
  Second half: the registration of \<^verbatim>\<open>(nick, direction)\<close> in \<^verbatim>\<open>connPeersByKey\<close> and the
  hand-over to the pending download. \<open>a\<close> is the address of the connection \<open>p\<close>.
\<close>

definition nmdcKey_register ::
  "Client \<Rightarrow> nat \<Rightarrow> connPeer \<Rightarrow> string \<Rightarrow> error option \<times> connPeer \<times> Client" where
  "nmdcKey_register c a p direction =
     (case p_peer p of
        None \<Rightarrow> (Some (Panic ''nil pointer dereference''), p, c)
      | Some peer \<Rightarrow>
          let key = (Nick peer, direction) in
          if connPeersByKey c key \<noteq> None
          then (Some (Errorf ''a connection with this peer and direction already exists''), p, c)
          else
            let c1 = c\<lparr>connPeersByKey := (connPeersByKey c)(key \<mapsto> a)\<rparr>;
                p1 = p\<lparr>p_direction := direction\<rparr>
            in
              if p_direction p1 = ''upload''
              then (None, p1\<lparr>p_protoState := ''wait_upload''\<rparr>, c1)
              else
                (case downloadPendingByPeer c1 peer of
                   Some (da, dl) \<Rightarrow>
                     (None,
                      p1\<lparr>p_protoState := ''wait_download'',
                         p_state := ''delegated_download'',
                         p_transfer := Some (DownloadRef da)\<rparr>,
                      c1\<lparr>dls := (dls c1)(da \<mapsto>
                            dl\<lparr>d_pconn := Some a,
                               d_state := ''waited_peer'',
                               d_wakeUp := d_wakeUp dl + 1\<rparr>)\<rparr>)
                 | None \<Rightarrow>
                     (Some (Errorf ''download connection but cannot find download''), p1, c1)))"

definition handleMessage_NmdcKey ::
  "Client \<Rightarrow> nat \<Rightarrow> connPeer \<Rightarrow> error option \<times> connPeer \<times> Client" where
  "handleMessage_NmdcKey c a p =
     (if p_protoState p \<noteq> ''direction''
      then (Some (Errorf (''[Key] invalid state: '' @ p_protoState p)), p, c)
      else
        let p1 = p\<lparr>p_protoState := ''key''\<rparr> in
        (case nmdcKey_direction c p1 of
           (Inl e, c1) \<Rightarrow> (Some e, p1, c1)
         | (Inr direction, c1) \<Rightarrow> nmdcKey_register c1 a p1 direction))"

text \<open>
  Modelled from the spec: the names of the ADC fields and \<^verbatim>\<open>Client.peerByClientId\<close> are
  not among the sources. The fields are the client id (\<^verbatim>\<open>ID\<close>) and the token (\<^verbatim>\<open>TO\<close>) of
  \<^verbatim>\<open>CINF\<close>; a peer is found by its 24-byte client id.
\<close>

definition adcFieldClientId :: string where
  "adcFieldClientId = ''ID''"

definition adcFieldToken :: string where
  "adcFieldToken = ''TO''"

definition peerByClientId :: "Client \<Rightarrow> byte list \<Rightarrow> Peer option" where
  "peerByClientId c cid = find (\<lambda>peer. adcClientId peer = cid) (peers c)"

text \<open>
  \<^verbatim>\<open>p.conn.Write(m)\<close>. The handlers run in state \<^verbatim>\<open>connected\<close>, which \<^verbatim>\<open>do()\<close> enters only
  after it has set \<^verbatim>\<open>p.conn\<close>.
\<close>

definition connWrite :: "connPeer \<Rightarrow> msg \<Rightarrow> connPeer" where
  "connWrite p m =
     (case p_conn p of
        None \<Rightarrow> p
      | Some pr \<Rightarrow> p\<lparr>p_conn := Some (pr\<lparr>written := written pr @ [m]\<rparr>)\<rparr>)"

text \<open>
  \<^verbatim>\<open>Client.downloadByAdcToken\<close> (download.go): the first download, in the order \<open>ord\<close> of
  the visit of \<^verbatim>\<open>transfers\<close>, that waits for a peer with this token.
\<close>

fun downloadByAdcToken_scan ::
  "Client \<Rightarrow> string \<Rightarrow> transfer list \<Rightarrow> (nat \<times> Download) option" where
  "downloadByAdcToken_scan c tok [] = None"
| "downloadByAdcToken_scan c tok (UploadRef a # ts) = downloadByAdcToken_scan c tok ts"
| "downloadByAdcToken_scan c tok (DownloadRef a # ts) =
     (case dls c a of
        None \<Rightarrow> downloadByAdcToken_scan c tok ts
      | Some dl \<Rightarrow>
          if d_adcToken dl = tok \<and> d_state dl = ''waiting_peer'' then Some (a, dl)
          else downloadByAdcToken_scan c tok ts)"

definition downloadByAdcToken ::
  "Client \<Rightarrow> transfer list \<Rightarrow> string \<Rightarrow> (nat \<times> Download) option" where
  "downloadByAdcToken c ord tok =
     downloadByAdcToken_scan c tok (filter (\<lambda>t. t \<in> transfers c) ord)"

text \<open>
  \<^verbatim>\<open>handleMessage\<close>, case \<^verbatim>\<open>*msgAdcCInfos\<close>. First the part that depends on who dialed: the
  accepting side takes the token and answers, the dialing side validates the fingerprint.
\<close>

definition adcInfos_answer ::
  "env \<Rightarrow> Client \<Rightarrow> connPeer \<Rightarrow> Peer \<Rightarrow> (string \<rightharpoonup> string) \<Rightarrow> error option \<times> connPeer" where
  "adcInfos_answer ev c p peer Fields =
     (if p_isActive p = True then
        (case Fields adcFieldToken of
           None \<Rightarrow> (Some (Errorf ''token not provided''), p)
         | Some token \<Rightarrow>
             (None,
              connWrite (p\<lparr>p_adcToken := token\<rparr>)
                (msgAdcCInfos [adcFieldClientId \<mapsto> dcBase32Encode ev (ownClientId c)])))
      else if protoIsAdc c = True \<and> p_isEncrypted p = True \<and> adcFingerprint peer \<noteq> [] then
        (case p_tlsPeerCertificates p of
           [] \<Rightarrow> (Some (Panic ''index out of range''), p)
         | connFingerprint # certs \<Rightarrow>
             if connFingerprint \<noteq> adcFingerprint peer
             then (Some (Errorf (''unable to validate peer fingerprint ('' @ connFingerprint
                      @ '' vs '' @ adcFingerprint peer @ '')'')), p)
             else (None, p))
      else (None, p))"

text \<open>Then the registration of the connection under \<^verbatim>\<open>(nick, direction)\<close>.\<close>

definition adcInfos_register ::
  "Client \<Rightarrow> transfer list \<Rightarrow> nat \<Rightarrow> connPeer \<Rightarrow> Peer \<Rightarrow> error option \<times> connPeer \<times> Client" where
  "adcInfos_register c ord a p peer =
     (case downloadByAdcToken c ord (p_adcToken p) of
        Some (da, dl) \<Rightarrow>
          let key = (Nick peer, ''download'') in
          if connPeersByKey c key \<noteq> None
          then (Some (Errorf ''a connection with this peer and direction already exists''), p, c)
          else
            (None,
             p\<lparr>p_direction := ''download'',
               p_protoState := ''wait_download'',
               p_state := ''delegated_download'',
               p_transfer := Some (DownloadRef da)\<rparr>,
             c\<lparr>connPeersByKey := (connPeersByKey c)(key \<mapsto> a),
               dls := (dls c)(da \<mapsto>
                 dl\<lparr>d_pconn := Some a,
                    d_state := ''waited_peer'',
                    d_wakeUp := d_wakeUp dl + 1\<rparr>)\<rparr>)
      | None \<Rightarrow>
          let key = (Nick peer, ''upload'') in
          if connPeersByKey c key \<noteq> None
          then (Some (Errorf ''a connection with this peer and direction already exists''), p, c)
          else
            (None,
             p\<lparr>p_direction := ''upload'', p_protoState := ''wait_upload''\<rparr>,
             c\<lparr>connPeersByKey := (connPeersByKey c)(key \<mapsto> a)\<rparr>))"

definition handleMessage_AdcCInfos ::
  "env \<Rightarrow> Client \<Rightarrow> transfer list \<Rightarrow> nat \<Rightarrow> connPeer \<Rightarrow> (string \<rightharpoonup> string)
     \<Rightarrow> error option \<times> connPeer \<times> Client" where
  "handleMessage_AdcCInfos ev c ord a p Fields =
     (if p_protoState p \<noteq> ''supports''
      then (Some (Errorf (''[Infos] invalid state: '' @ p_protoState p)), p, c)
      else
        let p1 = p\<lparr>p_protoState := ''infos''\<rparr> in
        (case Fields adcFieldClientId of
           None \<Rightarrow> (Some (Errorf ''client id not provided''), p1, c)
         | Some clientId \<Rightarrow>
             let p2 = p1\<lparr>p_peer := peerByClientId c (dcBase32Decode ev clientId)\<rparr> in
             (case p_peer p2 of
                None \<Rightarrow> (Some (Errorf (''unknown client id ('' @ clientId @ '')'')), p2, c)
              | Some peer \<Rightarrow>
                  (case adcInfos_answer ev c p2 peer Fields of
                     (Some e, p3) \<Rightarrow> (Some e, p3, c)
                   | (None, p3) \<Rightarrow> adcInfos_register c ord a p3 peer))))"

text \<open>
  \<^verbatim>\<open>connPeer.terminate\<close>. \<^verbatim>\<open>p.conn.Terminate()\<close> closes the socket. A panic leaves the
  connection as it was.
\<close>

definition connTerminate :: "connPeer \<Rightarrow> connPeer" where
  "connTerminate p = p\<lparr>p_conn := map_option (\<lambda>pr. pr\<lparr>connTerminated := True\<rparr>) (p_conn p)\<rparr>"

definition terminate :: "connPeer \<Rightarrow> error + connPeer" where
  "terminate p =
     (if p_state p = ''terminated'' then Inr p
      else if p_state p = ''pre_connecting'' \<or> p_state p = ''pre_connected''
      then Inr (p\<lparr>p_state := ''terminated''\<rparr>)
      else if p_state p = ''connecting''
      then Inr (p\<lparr>p_wakeUp := p_wakeUp p + 1, p_state := ''terminated''\<rparr>)
      else if p_state p = ''connected''
      then Inr ((connTerminate p)\<lparr>p_state := ''terminated''\<rparr>)
      else Inl (Panic (''terminate() unsupported in state '' @ [CHR 0x27] @ p_state p @ [CHR 0x27])))"


section \<open>Downloads (download.go)\<close>

text \<open>\<^verbatim>\<open>Client.DownloadFile\<close>: the configuration as it is stored, then the new download.\<close>

definition DownloadFile_conf :: "DownloadConf \<Rightarrow> DownloadConf" where
  "DownloadFile_conf conf = (if sint (Length conf) \<le> 0 then conf\<lparr>Length := - 1\<rparr> else conf)"

definition DownloadFile :: "env \<Rightarrow> Client \<Rightarrow> nat \<Rightarrow> DownloadConf \<Rightarrow> Client" where
  "DownloadFile ev c a conf0 =
     (let conf = DownloadFile_conf conf0;
          d = \<lparr>d_conf = conf,
               d_terminateRequested = False,
               d_terminate = 0,
               d_state = ''uninitialized'',
               d_wakeUp = 0,
               d_activeDlChan = 0,
               d_slotChan = 0,
               d_pconn = None,
               d_query = (if isFilelist conf = True then ''file files.xml.bz2''
                          else ''file TTH/'' @ TTHString ev (TTH conf)),
               d_adcToken = [],
               d_writer = None,
               d_content = [],
               d_offset = 0,
               d_length = 0\<rparr>
      in c\<lparr>dls := (dls c)(a \<mapsto> d), transfers := insert (DownloadRef a) (transfers c)\<rparr>)"

text \<open>
  \<^verbatim>\<open>Download.Close\<close>, on the download at address \<open>a\<close>. Modelled from the spec:
  \<^verbatim>\<open>connPeer.close\<close> is not among the sources; it closes the peer connection of a download
  that is being processed. \<^verbatim>\<open>Download.do\<close> sets the state \<^verbatim>\<open>processing\<close> together with
  \<^verbatim>\<open>d.pconn\<close>, so such a download has its connection.
\<close>

definition Close :: "Client \<Rightarrow> nat \<Rightarrow> Client" where
  "Close c a =
     (case dls c a of
        None \<Rightarrow> c
      | Some d \<Rightarrow>
          if d_terminateRequested d = True then c
          else
            let d1 = d\<lparr>d_terminateRequested := True\<rparr> in
            if d_state d1 \<noteq> ''processing''
            then c\<lparr>dls := (dls c)(a \<mapsto> d1\<lparr>d_terminate := d_terminate d1 + 1\<rparr>)\<rparr>
            else
              (case d_pconn d1 of
                 None \<Rightarrow> c\<lparr>dls := (dls c)(a \<mapsto> d1)\<rparr>
               | Some pa \<Rightarrow>
                   c\<lparr>dls := (dls c)(a \<mapsto> d1),
                     conns := (conns c)(pa := map_option connTerminate (conns c pa))\<rparr>))"

text \<open>
  \<^verbatim>\<open>Download.do\<close>: its three critical sections. A section leaves the download in a
  \<^verbatim>\<open>waiting_\<close> state when the goroutine has to wait.
\<close>

definition do_activedl :: "Client \<Rightarrow> nat \<Rightarrow> Client" where
  "do_activedl c a =
     (case dls c a of
        None \<Rightarrow> c
      | Some d \<Rightarrow>
          if activeDownloadsByPeer c (Nick (Peer (d_conf d))) \<noteq> None
          then c\<lparr>dls := (dls c)(a \<mapsto> d\<lparr>d_state := ''waiting_activedl''\<rparr>)\<rparr>
          else c\<lparr>dls := (dls c)(a \<mapsto> d\<lparr>d_state := ''waited_activedl''\<rparr>),
                 activeDownloadsByPeer :=
                   (activeDownloadsByPeer c)(Nick (Peer (d_conf d)) \<mapsto> a)\<rparr>)"

definition do_slot :: "Client \<Rightarrow> nat \<Rightarrow> Client" where
  "do_slot c a =
     (case dls c a of
        None \<Rightarrow> c
      | Some d \<Rightarrow>
          if downloadSlotAvail c \<le> 0
          then c\<lparr>dls := (dls c)(a \<mapsto> d\<lparr>d_state := ''waiting_slot''\<rparr>)\<rparr>
          else c\<lparr>dls := (dls c)(a \<mapsto> d\<lparr>d_state := ''waited_slot''\<rparr>),
                 downloadSlotAvail := downloadSlotAvail c - 1\<rparr>)"

definition do_peer :: "env \<Rightarrow> Client \<Rightarrow> nat \<Rightarrow> Client" where
  "do_peer ev c a =
     (case dls c a of
        None \<Rightarrow> c
      | Some d \<Rightarrow>
          (case connPeersByKey c (Nick (Peer (d_conf d)), ''download'') of
             None \<Rightarrow>
               let d1 = (if protoIsAdc c = True then d\<lparr>d_adcToken := adcRandomToken ev\<rparr> else d);
                   c1 = peerRequestConnection c (Peer (d_conf d1)) (d_adcToken d1)
               in c1\<lparr>dls := (dls c1)(a \<mapsto> d1\<lparr>d_state := ''waiting_peer''\<rparr>)\<rparr>
           | Some pa \<Rightarrow>
               c\<lparr>conns := (conns c)(pa :=
                     map_option
                       (\<lambda>pconn. pconn\<lparr>p_state := ''delegated_download'',
                                      p_transfer := Some (DownloadRef a)\<rparr>)
                       (conns c pa)),
                 dls := (dls c)(a \<mapsto> d\<lparr>d_pconn := Some pa, d_state := ''processing''\<rparr>)\<rparr>))"

text \<open>
  The \<^verbatim>\<open>select\<close> of a waiting download: what it received, and the error with which the
  wait ends. The timer runs only while the download waits for a peer.
\<close>

datatype select = RecvTerminate | RecvWakeUp | RecvTimeout

definition do_wait :: "select \<Rightarrow> error option" where
  "do_wait s =
     (case s of
        RecvTerminate \<Rightarrow> Some errorTerminated
      | RecvWakeUp \<Rightarrow> None
      | RecvTimeout \<Rightarrow> Some (Errorf ''timed out''))"

text \<open>
  \<^verbatim>\<open>Download.handleExit\<close>, on the download at address \<open>a\<close>. The two loops over
  \<^verbatim>\<open>transfers\<close> visit it in the orders \<open>ord1\<close> and \<open>ord2\<close> and stop at the first download
  they wake.
\<close>

fun wake_activedl :: "Client \<Rightarrow> nat \<Rightarrow> Download \<Rightarrow> transfer list \<Rightarrow> Client" where
  "wake_activedl c a d [] = c"
| "wake_activedl c a d (UploadRef b # ts) = wake_activedl c a d ts"
| "wake_activedl c a d (DownloadRef b # ts) =
     (case dls c b of
        None \<Rightarrow> wake_activedl c a d ts
      | Some od \<Rightarrow>
          if d_terminateRequested od = False \<and> d_state od = ''waiting_activedl''
               \<and> Peer (d_conf d) = Peer (d_conf od)
          then c\<lparr>dls := (dls c)(b \<mapsto>
                     od\<lparr>d_state := ''waited_activedl'',
                        d_activeDlChan := d_activeDlChan od + 1\<rparr>),
                 activeDownloadsByPeer :=
                   (activeDownloadsByPeer c)(Nick (Peer (d_conf od)) \<mapsto> a)\<rparr>
          else wake_activedl c a d ts)"

fun wake_slot :: "Client \<Rightarrow> transfer list \<Rightarrow> Client" where
  "wake_slot c [] = c"
| "wake_slot c (UploadRef b # ts) = wake_slot c ts"
| "wake_slot c (DownloadRef b # ts) =
     (case dls c b of
        None \<Rightarrow> wake_slot c ts
      | Some od \<Rightarrow>
          if d_terminateRequested od = False \<and> d_state od = ''waiting_slot''
          then c\<lparr>dls := (dls c)(b \<mapsto>
                     od\<lparr>d_state := ''waited_slot'', d_slotChan := d_slotChan od + 1\<rparr>),
                 downloadSlotAvail := downloadSlotAvail c - 1\<rparr>
          else wake_slot c ts)"

definition Download_handleExit ::
  "Client \<Rightarrow> transfer list \<Rightarrow> transfer list \<Rightarrow> nat \<Rightarrow> error option \<Rightarrow> Client" where
  "Download_handleExit c ord1 ord2 a err =
     (case dls c a of
        None \<Rightarrow> c
      | Some d \<Rightarrow>
          let c1 = c\<lparr>transfers := transfers c - {DownloadRef a}\<rparr>;
              c2 = c1\<lparr>activeDownloadsByPeer :=
                        (activeDownloadsByPeer c1)(Nick (Peer (d_conf d)) := None)\<rparr>;
              c3 = wake_activedl c2 a d (filter (\<lambda>t. t \<in> transfers c2) ord1);
              c4 = c3\<lparr>downloadSlotAvail := downloadSlotAvail c3 + 1\<rparr>;
              c5 = wake_slot c4 (filter (\<lambda>t. t \<in> transfers c4) ord2)
          in
            if err = None
            then (if hasOnDownloadSuccessful c5
                  then c5\<lparr>callbacks := callbacks c5 @ [OnDownloadSuccessful a]\<rparr> else c5)
            else (if hasOnDownloadError c5
                  then c5\<lparr>callbacks := callbacks c5 @ [OnDownloadError a]\<rparr> else c5))"

text \<open>The end of \<^verbatim>\<open>Download.do\<close>: an error of the waits goes to \<^verbatim>\<open>handleExit\<close>.\<close>

definition do_end ::
  "Client \<Rightarrow> transfer list \<Rightarrow> transfer list \<Rightarrow> nat \<Rightarrow> error option \<Rightarrow> Client" where
  "do_end c ord1 ord2 a err =
     (if err \<noteq> None then Download_handleExit c ord1 ord2 a err else c)"


text \<open>The switches of the \<^verbatim>\<open>protocol\<close> of a connection.\<close>

definition SetReadBinary :: "bool \<Rightarrow> connPeer \<Rightarrow> connPeer" where
  "SetReadBinary b p = p\<lparr>p_conn := map_option (\<lambda>pr. pr\<lparr>readBinary := b\<rparr>) (p_conn p)\<rparr>"

definition ReaderEnableZlib :: "connPeer \<Rightarrow> connPeer" where
  "ReaderEnableZlib p = p\<lparr>p_conn := map_option (\<lambda>pr. pr\<lparr>readerZlib := True\<rparr>) (p_conn p)\<rparr>"

text \<open>
  \<^verbatim>\<open>Download.handleSendFile\<close>. \<open>p\<close> is the connection \<^verbatim>\<open>d.pconn\<close>. \<^verbatim>\<open>os.Create\<close> leaves an
  empty file; \<^verbatim>\<open>make([]byte, n)\<close> panics when \<open>n\<close> is not a length an \<^verbatim>\<open>int\<close> can hold.
\<close>

definition handleSendFile ::
  "env \<Rightarrow> Client \<Rightarrow> fs \<Rightarrow> connPeer \<Rightarrow> Download \<Rightarrow> string \<Rightarrow> uint64 \<Rightarrow> uint64 \<Rightarrow> bool
     \<Rightarrow> error option \<times> Download \<times> connPeer \<times> fs" where
  "handleSendFile ev c fs p d reqQuery reqStart reqLength reqCompressed =
     (if reqQuery \<noteq> d_query d
      then (Some (Errorf (''filename returned by client is wrong: '' @ reqQuery @ '' vs ''
                    @ d_query d)), d, p, fs)
      else if reqStart \<noteq> Start (d_conf d)
      then (Some (ErrWrongStart reqStart (Start (d_conf d))), d, p, fs)
      else if reqCompressed = True \<and> PeerDisableCompression c = True
      then (Some (Errorf ''compression is active but is disabled''), d, p, fs)
      else
        let d1 = (if Length (d_conf d) = - 1 then d\<lparr>d_length := reqLength\<rparr>
                  else d\<lparr>d_length := Length (d_conf d)\<rparr>)
        in
          if Length (d_conf d) \<noteq> - 1 \<and> d_length d1 \<noteq> reqLength
          then (Some (ErrWrongLength (d_length d1) reqLength), d1, p, fs)
          else if d_length d1 = 0
          then (Some (Errorf ''downloading null files is not supported''), d1, p, fs)
          else
            let p1 = SetReadBinary True p;
                p2 = (if reqCompressed = True then ReaderEnableZlib p1 else p1)
            in
              if SavePath (d_conf d1) \<noteq> []
              then
                (case Create_err ev (SavePath (d_conf d1) @ ''.tmp'') of
                   Some e \<Rightarrow> (Some (Errorf ''unable to create destination file''), d1, p2, fs)
                 | None \<Rightarrow>
                     (None,
                      d1\<lparr>d_writer := Some \<lparr>w_sink = FileSink (SavePath (d_conf d1) @ ''.tmp''),
                                           w_data = [], w_closed = False\<rparr>\<rparr>,
                      p2,
                      fs(SavePath (d_conf d1) @ ''.tmp'' \<mapsto> [])))
              else if 2 ^ 63 \<le> unat (d_length d1)
              then (Some (Panic ''makeslice: len out of range''), d1, p2, fs)
              else
                (None,
                 d1\<lparr>d_content := replicate (unat (d_length d1)) 0,
                    d_writer := Some \<lparr>w_sink = RamSink, w_data = [], w_closed = False\<rparr>\<rparr>,
                 p2, fs))"

text \<open>
  \<^verbatim>\<open>d.writer.Write(bs)\<close>. \<open>wr\<close> is what the writer does with this call: \<open>None\<close> when it takes
  every byte, \<open>Some k\<close> when it fails after \<open>k\<close> bytes. A file holds what was written through
  its handle. Modelled from the spec: \<^verbatim>\<open>newBytesWriteCloser\<close> is not among the sources; it
  keeps the content in memory, writing into the buffer from its start.
\<close>

definition writer_Write ::
  "nat option \<Rightarrow> fs \<Rightarrow> Download \<Rightarrow> writer \<Rightarrow> byte list \<Rightarrow> error option \<times> Download \<times> fs" where
  "writer_Write wr fs d w bs =
     (let n = (case wr of None \<Rightarrow> length bs | Some k \<Rightarrow> min k (length bs));
          err = (case wr of None \<Rightarrow> None | Some k \<Rightarrow> Some (OsError ''write''));
          w1 = w\<lparr>w_data := w_data w @ take n bs\<rparr>;
          d1 = d\<lparr>d_writer := Some w1\<rparr>
      in case w_sink w of
           FileSink path \<Rightarrow> (err, d1, fs(path \<mapsto> w_data w1))
         | RamSink \<Rightarrow>
             (err, d1\<lparr>d_content := w_data w1 @ drop (length (w_data w1)) (d_content d)\<rparr>, fs))"

definition writer_Close :: "Download \<Rightarrow> Download" where
  "writer_Close d = d\<lparr>d_writer := map_option (\<lambda>w. w\<lparr>w_closed := True\<rparr>) (d_writer d)\<rparr>"

text \<open>
  Modelled from the spec: \<^verbatim>\<open>TTHFromFile\<close> is not among the sources; it is the TTH of the
  bytes of the file at a path, or the error of reading it.
\<close>

definition TTHFromFile :: "env \<Rightarrow> fs \<Rightarrow> string \<Rightarrow> error + TigerHash" where
  "TTHFromFile ev fs path =
     (case fs path of
        None \<Rightarrow> Inl (OsError ''no such file'')
      | Some bs \<Rightarrow>
          (case Open_err ev path of
             Some e \<Rightarrow> Inl (OsError e)
           | None \<Rightarrow> Inr (TTHFromBytes ev bs)))"

text \<open>
  \<^verbatim>\<open>Download.handleDownload\<close>, case \<^verbatim>\<open>*msgBinary\<close>, after the last byte: a file list is
  decompressed into its final place.
\<close>

definition finish_filelist ::
  "env \<Rightarrow> fs \<Rightarrow> Download \<Rightarrow> error option \<times> Download \<times> fs" where
  "finish_filelist ev fs d =
     (if SavePath (d_conf d) \<noteq> []
      then
        (case fs (SavePath (d_conf d) @ ''.tmp'') of
           None \<Rightarrow> (Some (OsError ''no such file''), d, fs)
         | Some src \<Rightarrow>
             (case Open_err ev (SavePath (d_conf d) @ ''.tmp'') of
                Some e \<Rightarrow> (Some (OsError e), d, fs)
              | None \<Rightarrow>
                  (case Create_err ev (SavePath (d_conf d)) of
                     Some e \<Rightarrow> (Some (OsError e), d, fs)
                   | None \<Rightarrow>
                       let fs1 = fs(SavePath (d_conf d) \<mapsto> fst (bunzip2 ev src)) in
                       (case snd (bunzip2 ev src) of
                          Some e \<Rightarrow> (Some (OsError e), d, fs1)
                        | None \<Rightarrow>
                            (case Remove_err ev (SavePath (d_conf d) @ ''.tmp'') of
                               Some e \<Rightarrow> (Some (OsError e), d, fs1)
                             | None \<Rightarrow>
                                 (Some errorTerminated, d,
                                  fs1(SavePath (d_conf d) @ ''.tmp'' := None)))))))
      else
        (case snd (bunzip2 ev (d_content d)) of
           Some e \<Rightarrow> (Some (OsError e), d, fs)
         | None \<Rightarrow> (Some errorTerminated, d\<lparr>d_content := fst (bunzip2 ev (d_content d))\<rparr>, fs)))"

text \<open>
  The same place for a normal file: the validation of the content by its TTH, then the
  move of the temporary file to the final path.
\<close>

definition validate :: "env \<Rightarrow> fs \<Rightarrow> Download \<Rightarrow> error option" where
  "validate ev fs d =
     (if SkipValidation (d_conf d) = False \<and> Start (d_conf d) = 0 \<and> sint (Length (d_conf d)) \<le> 0
      then
        (if SavePath (d_conf d) \<noteq> []
         then
           (case TTHFromFile ev fs (SavePath (d_conf d) @ ''.tmp'') of
              Inl e \<Rightarrow> Some e
            | Inr contentTTH \<Rightarrow>
                if contentTTH \<noteq> TTH (d_conf d) then Some (Errorf ''validation failed'') else None)
         else
           (if TTHFromBytes ev (d_content d) \<noteq> TTH (d_conf d)
            then Some (Errorf ''validation failed'') else None))
      else None)"

definition os_Rename :: "env \<Rightarrow> fs \<Rightarrow> string \<Rightarrow> string \<Rightarrow> error option \<times> fs" where
  "os_Rename ev fs old new =
     (case fs old of
        None \<Rightarrow> (Some (OsError ''no such file''), fs)
      | Some bs \<Rightarrow>
          (case Rename_err ev old of
             Some e \<Rightarrow> (Some (OsError e), fs)
           | None \<Rightarrow> (None, (fs(old := None))(new \<mapsto> bs))))"

definition finish_file ::
  "env \<Rightarrow> fs \<Rightarrow> Download \<Rightarrow> error option \<times> Download \<times> fs" where
  "finish_file ev fs d =
     (case validate ev fs d of
        Some e \<Rightarrow> (Some e, d, fs)
      | None \<Rightarrow>
          if SavePath (d_conf d) \<noteq> []
          then
            (case os_Rename ev fs (SavePath (d_conf d) @ ''.tmp'') (SavePath (d_conf d)) of
               (Some e, fs1) \<Rightarrow> (Some e, d, fs1)
             | (None, fs1) \<Rightarrow> (Some errorTerminated, d, fs1))
          else (Some errorTerminated, d, fs))"

text \<open>
  \<^verbatim>\<open>Download.handleDownload\<close>, case \<^verbatim>\<open>*msgBinary\<close>. The result \<^verbatim>\<open>errorTerminated\<close> tells the
  connection that the download is complete.
\<close>

definition handleDownload_binary ::
  "env \<Rightarrow> nat option \<Rightarrow> fs \<Rightarrow> connPeer \<Rightarrow> Download \<Rightarrow> byte list
     \<Rightarrow> error option \<times> Download \<times> connPeer \<times> fs" where
  "handleDownload_binary ev wr fs p d Content =
     (let newLength = d_offset d + of_nat (length Content) in
      if newLength > d_length d
      then (Some (ErrBinaryTooLong newLength), d, p, fs)
      else
        (case d_writer d of
           None \<Rightarrow> (Some (Panic ''nil pointer dereference''), d, p, fs)
         | Some w \<Rightarrow>
             (case writer_Write wr fs d w Content of
                (Some e, d1, fs1) \<Rightarrow> (Some e, writer_Close d1, p, fs1)
              | (None, d1, fs1) \<Rightarrow>
                  let d2 = d1\<lparr>d_offset := newLength\<rparr> in
                  if d_offset d2 = d_length d2
                  then
                    let p1 = SetReadBinary False p;
                        d3 = writer_Close d2
                    in
                      (case (if isFilelist (d_conf d3) then finish_filelist ev fs1 d3
                             else finish_file ev fs1 d3) of
                         (err, d4, fs2) \<Rightarrow> (err, d4, p1, fs2))
                  else (None, d2, p, fs1))))"

definition handleDownload ::
  "env \<Rightarrow> Client \<Rightarrow> nat option \<Rightarrow> fs \<Rightarrow> connPeer \<Rightarrow> Download \<Rightarrow> msg
     \<Rightarrow> error option \<times> Download \<times> connPeer \<times> fs" where
  "handleDownload ev c wr fs p d m =
     (case m of
        msgAdcCStatus t code text \<Rightarrow> (Some (ErrPeer m), d, p, fs)
      | msgAdcCSendFile q s l z \<Rightarrow> handleSendFile ev c fs p d q s l z
      | msgNmdcMaxedOut \<Rightarrow> (Some (Errorf ''maxed out''), d, p, fs)
      | msgNmdcError e \<Rightarrow> (Some (Errorf (''error: '' @ e)), d, p, fs)
      | msgNmdcSendFile q s l z \<Rightarrow> handleSendFile ev c fs p d q s l z
      | msgBinary Content \<Rightarrow> handleDownload_binary ev wr fs p d Content
      | _ \<Rightarrow> (Some (ErrUnhandled m), d, p, fs))"


text \<open>
  The loop of \<^verbatim>\<open>connPeer.do\<close> in state \<^verbatim>\<open>delegated_download\<close>, for the binary messages of
  one transfer: each chunk goes to \<^verbatim>\<open>handleDownload\<close>, and the first error (the download
  is complete, or it has failed) ends the loop. Each chunk comes with what the writer does
  with it.
\<close>

fun receive ::
  "env \<Rightarrow> fs \<Rightarrow> connPeer \<Rightarrow> Download \<Rightarrow> (nat option \<times> byte list) list
     \<Rightarrow> error option \<times> Download \<times> connPeer \<times> fs" where
  "receive ev fs p d [] = (None, d, p, fs)"
| "receive ev fs p d ((wr, bs) # rest) =
     (case handleDownload_binary ev wr fs p d bs of
        (None, d', p', fs') \<Rightarrow> receive ev fs' p' d' rest
      | (Some e, d', p', fs') \<Rightarrow> (Some e, d', p', fs'))"


section \<open>Uploads (upload.go)\<close>

text \<open>
  The scan of the share tree in \<^verbatim>\<open>newUpload\<close>: the files of a directory first, then its
  subdirectories, and the first hit ends the scan.
\<close>

fun scanDir :: "TigerHash \<Rightarrow> shareDirectory \<Rightarrow> shareFile option"
  and scanDirs :: "TigerHash \<Rightarrow> shareDirectory list \<Rightarrow> shareFile option" where
  "scanDir t (ShareDirectory fl ds) =
     (case find (\<lambda>file. tth file = t) fl of
        Some file \<Rightarrow> Some file
      | None \<Rightarrow> scanDirs t ds)"
| "scanDirs t [] = None"
| "scanDirs t (dir # ds) =
     (case scanDir t dir of
        Some file \<Rightarrow> Some file
      | None \<Rightarrow> scanDirs t ds)"

text \<open>Every file of a directory and of the directories below it.\<close>

fun allFiles :: "shareDirectory \<Rightarrow> shareFile list" where
  "allFiles (ShareDirectory fl ds) = fl @ concat (map allFiles ds)"

text \<open>
  The function literal of \<^verbatim>\<open>newUpload\<close> that checks the request and opens the source. It
  gives the error, or the upload with its reader and length. \<^verbatim>\<open>u.query[9:]\<close> panics on a
  query shorter than nine bytes.
\<close>

definition newUpload_open :: "env \<Rightarrow> Client \<Rightarrow> upload \<Rightarrow> int64 \<Rightarrow> error + upload" where
  "newUpload_open ev c u reqLength =
     (if uploadSlotAvail c \<le> 0 then Inl errorNoSlots
      else if u_query u = ''file files.xml.bz2''
      then
        (if u_start u \<noteq> 0 \<or> reqLength \<noteq> - 1
         then Inl (Errorf ''filelist seeking is not supported'')
         else Inr (u\<lparr>u_reader := Some (BytesReader (fileList c)),
                     u_length := of_nat (length (fileList c))\<rparr>))
      else if length (u_query u) < 9 then Inl (Panic ''slice bounds out of range'')
      else
        (case TigerHashFromBase32 ev (drop 9 (u_query u)) of
           Inl e \<Rightarrow> Inl (OsError e)
         | Inr t \<Rightarrow>
             (case scanDirs t (shareTree c) of
                None \<Rightarrow> Inl (Errorf ''file does not exists'')
              | Some sfile \<Rightarrow>
                  if take 4 (u_query u) = ''tthl''
                  then
                    (if u_start u \<noteq> 0 \<or> reqLength \<noteq> - 1
                     then Inl (Errorf ''tthl seeking is not supported'')
                     else Inr (u\<lparr>u_reader := Some (BytesReader (concat (tthl sfile))),
                                 u_length := of_nat (length (concat (tthl sfile)))\<rparr>))
                  else
                    (case Open_err ev (realPath sfile) of
                       Some e \<Rightarrow> Inl (OsError e)
                     | None \<Rightarrow>
                         (case Seek_err ev (realPath sfile) (u_start u) of
                            Some e \<Rightarrow> Inl (OsError e)
                          | None \<Rightarrow>
                              let maxLength = sizeBytes sfile - u_start u in
                              if reqLength \<noteq> - 1
                              then
                                (if reqLength > maxLength then Inl (Errorf ''length too big'')
                                 else Inr (u\<lparr>u_length := reqLength,
                                             u_reader := Some (FileReader (realPath sfile)
                                                                 (u_start u))\<rparr>))
                              else Inr (u\<lparr>u_length := maxLength,
                                          u_reader := Some (FileReader (realPath sfile)
                                                              (u_start u))\<rparr>))))))"

text \<open>
  \<^verbatim>\<open>newUpload\<close>. \<open>ua\<close> is the address of the new upload, \<open>pa\<close> the address of the
  connection \<open>p\<close>. The result is the panic, or what the function returns together with
  the connection and the client as it left them.
\<close>

definition newUpload ::
  "env \<Rightarrow> Client \<Rightarrow> nat \<Rightarrow> nat \<Rightarrow> connPeer \<Rightarrow> string \<Rightarrow> uint64 \<Rightarrow> int64 \<Rightarrow> bool
     \<Rightarrow> error + (bool \<times> connPeer \<times> Client)" where
  "newUpload ev c ua pa p reqQuery reqStart reqLength reqCompressed =
     (let u = \<lparr>u_terminateRequested = False,
               u_state = ''processing'',
               u_pconn = pa,
               u_reader = None,
               u_readerClosed = False,
               u_isCompressed = (PeerDisableCompression c = False \<and> reqCompressed = True),
               u_query = reqQuery,
               u_start = reqStart,
               u_length = 0,
               u_offset = 0\<rparr>
      in
        if p_peer p = None then Inl (Panic ''nil pointer dereference'')
        else
          (case newUpload_open ev c u reqLength of
             Inl (Panic m) \<Rightarrow> Inl (Panic m)
           | Inl err \<Rightarrow>
               if err = errorNoSlots
               then
                 (if protoIsAdc c = True
                  then Inr (False,
                            connWrite p (msgAdcCStatus adcStatusWarning adcCodeSlotsFull
                                           ''Slots full''), c)
                  else Inr (False, connWrite p msgNmdcMaxedOut, c))
               else
                 (if protoIsAdc c = True
                  then Inr (False,
                            connWrite p (msgAdcCStatus adcStatusWarning adcCodeFileNotAvailable
                                           ''File Not Available''), c)
                  else Inr (False, connWrite p (msgNmdcError ''File Not Available''), c))
           | Inr u1 \<Rightarrow>
               let p1 = (if protoIsAdc c = True
                         then connWrite p (msgAdcCSendFile (u_query u1) (u_start u1)
                                             (u_length u1) (u_isCompressed u1))
                         else connWrite p (msgNmdcSendFile (u_query u1) (u_start u1)
                                             (u_length u1) (u_isCompressed u1)));
                   c1 = c\<lparr>transfers := insert (UploadRef ua) (transfers c),
                          uls := (uls c)(ua \<mapsto> u1)\<rparr>;
                   c2 = c1\<lparr>uploadSlotAvail := uploadSlotAvail c1 - 1\<rparr>
               in Inr (True,
                       p1\<lparr>p_state := ''delegated_upload'', p_transfer := Some (UploadRef ua)\<rparr>,
                       c2)))"

text \<open>\<^verbatim>\<open>upload.handleExit\<close>, on the upload at address \<open>ua\<close>.\<close>

definition upload_handleExit :: "Client \<Rightarrow> nat \<Rightarrow> error option \<Rightarrow> Client" where
  "upload_handleExit c ua err =
     (case uls c ua of
        None \<Rightarrow> c
      | Some u \<Rightarrow>
          let c1 = c\<lparr>transfers := transfers c - {UploadRef ua},
                     uls := (uls c)(ua \<mapsto> u\<lparr>u_readerClosed := True\<rparr>)\<rparr>
          in c1\<lparr>uploadSlotAvail := uploadSlotAvail c1 + 1\<rparr>)"

section \<open>Peer connection: the end of its routine (conn\_peer.go)\<close>

text \<open>
  The function that \<^verbatim>\<open>connPeer.do\<close> runs under the lock when its loop has ended with
  \<open>err\<close>: a delegated transfer is told, the socket is closed, and the connection leaves
  \<^verbatim>\<open>connPeers\<close> and, when its direction was set, \<^verbatim>\<open>connPeersByKey\<close>. \<open>a\<close> is the address of
  \<open>p\<close>. A connection is in a delegated state only while it holds a transfer of that
  kind (\<^verbatim>\<open>newUpload\<close>, \<^verbatim>\<open>Download.do\<close> and the handshake handlers set both together), so
  the type assertions of the source succeed; for any other content of \<^verbatim>\<open>p.transfer\<close> the
  model tells no transfer.
\<close>

definition do_exit ::
  "Client \<Rightarrow> transfer list \<Rightarrow> transfer list \<Rightarrow> nat \<Rightarrow> connPeer \<Rightarrow> error option
     \<Rightarrow> connPeer \<times> Client" where
  "do_exit c ord1 ord2 a p err =
     (let c1 =
            (if p_state p = ''delegated_upload''
             then (case p_transfer p of
                     Some (UploadRef ua) \<Rightarrow> upload_handleExit c ua err
                   | _ \<Rightarrow> c)
             else if p_state p = ''delegated_download''
             then (case p_transfer p of
                     Some (DownloadRef da) \<Rightarrow> Download_handleExit c ord1 ord2 da err
                   | _ \<Rightarrow> c)
             else c);
          p1 = (if p_conn p \<noteq> None then connTerminate p else p);
          c2 = c1\<lparr>conns := (conns c1)(a := None)\<rparr>;
          c3 = (case p_peer p1 of
                  None \<Rightarrow> c2
                | Some peer \<Rightarrow>
                    if p_direction p1 \<noteq> []
                    then c2\<lparr>connPeersByKey :=
                             (connPeersByKey c2)((Nick peer, p_direction p1) := None)\<rparr>
                    else c2)
      in (p1, c3))"


section \<open>Sequences of events on a client\<close>

text \<open>
  The functions above that run under the client's lock and change the client, as events:
  the creation and the closing of a download, the three critical sections of
  \<^verbatim>\<open>Download.do\<close>, the terminal handlers of both kinds of transfer, and an upload request.
  A panic of \<^verbatim>\<open>newUpload\<close> leaves the client as it was.
\<close>

datatype event =
    EvDownloadFile env nat DownloadConf
  | EvClose nat
  | EvDoActivedl nat
  | EvDoSlot nat
  | EvDoPeer env nat
  | EvDownloadExit "transfer list" "transfer list" nat "error option"
  | EvNewUpload env nat nat connPeer string uint64 int64 bool
  | EvUploadExit nat "error option"

fun apply_event :: "Client \<Rightarrow> event \<Rightarrow> Client" where
  "apply_event c (EvDownloadFile ev a conf) = DownloadFile ev c a conf"
| "apply_event c (EvClose a) = Close c a"
| "apply_event c (EvDoActivedl a) = do_activedl c a"
| "apply_event c (EvDoSlot a) = do_slot c a"
| "apply_event c (EvDoPeer ev a) = do_peer ev c a"
| "apply_event c (EvDownloadExit ord1 ord2 a err) = Download_handleExit c ord1 ord2 a err"
| "apply_event c (EvNewUpload ev ua pa p q s l z) =
     (case newUpload ev c ua pa p q s l z of
        Inl e \<Rightarrow> c
      | Inr (ok, p', c') \<Rightarrow> c')"
| "apply_event c (EvUploadExit ua err) = upload_handleExit c ua err"

definition run_events :: "Client \<Rightarrow> event list \<Rightarrow> Client" where
  "run_events c evs = foldl apply_event c evs"


section \<open>Concrete states\<close>

text \<open>
  A peer, a connection in state \<^verbatim>\<open>connected\<close> at the start of the handshake, a download as
  \<^verbatim>\<open>DownloadFile\<close> creates it, and a client with three slots of each kind.
\<close>

definition ex_peer :: Peer where
  "ex_peer = \<lparr>Nick = ''bob'', adcClientId = [1, 2, 3], adcFingerprint = []\<rparr>"

definition ex_protocol :: protocol where
  "ex_protocol =
     \<lparr>written = [], readBinary = False, readerZlib = False, syncMode = False,
      connTerminated = False\<rparr>"

definition ex_conn :: connPeer where
  "ex_conn =
     \<lparr>p_isEncrypted = False, p_isActive = True, p_wakeUp = 0, p_state = ''connected'',
      p_protoState = ''connected'', p_conn = Some ex_protocol, p_tlsPeerCertificates = [],
      p_adcToken = [], p_peer = None, p_localDirection = [], p_localBet = 0,
      p_remoteDirection = [], p_remoteBet = 0, p_direction = [], p_transfer = None\<rparr>"

definition ex_conf :: DownloadConf where
  "ex_conf =
     \<lparr>Peer = ex_peer, TTH = [7, 7, 7], Start = 0, Length = 0, SavePath = [],
      SkipValidation = False, isFilelist = False\<rparr>"

definition ex_env :: env where
  "ex_env =
     \<lparr>TTHFromBytes = take 3,
      TigerHashFromBase32 = (\<lambda>s. if s = ''G4DQO'' then Inr [7, 7, 7]
                                  else if s = ''BEEQS'' then Inr [9, 9, 9]
                                  else Inl ''illegal base32 data''),
      TTHString = (\<lambda>h. ''G4DQO''),
      dcBase32Decode = (\<lambda>s. [1, 2, 3]),
      dcBase32Encode = (\<lambda>bs. ''AEBAG''),
      bunzip2 = (\<lambda>bs. (bs, None)),
      adcRandomToken = ''TOKEN'',
      Open_err = (\<lambda>path. None),
      Create_err = (\<lambda>path. None),
      Seek_err = (\<lambda>path off. None),
      Rename_err = (\<lambda>path. None),
      Remove_err = (\<lambda>path. None)\<rparr>"

definition ex_client :: Client where
  "ex_client =
     \<lparr>protoIsAdc = False, PeerDisableCompression = False, ownClientId = [4, 5, 6],
      peers = [ex_peer], conns = Map.empty, connPeersByKey = Map.empty, dls = Map.empty,
      uls = Map.empty, transfers = {}, fileList = [66, 90, 104], shareTree = [],
      activeDownloadsByPeer = Map.empty, downloadSlotAvail = 3, uploadSlotAvail = 3,
      hubRequests = [], callbacks = [], hasOnDownloadSuccessful = True,
      hasOnDownloadError = True\<rparr>"

text \<open>The download at address 10, as created, and waiting for a connection of its peer.\<close>

definition ex_dl :: Download where
  "ex_dl =
     \<lparr>d_conf = DownloadFile_conf ex_conf, d_terminateRequested = False, d_terminate = 0,
      d_state = ''waiting_peer'', d_wakeUp = 0, d_activeDlChan = 0, d_slotChan = 0,
      d_pconn = None, d_query = ''file TTH/G4DQO'', d_adcToken = [], d_writer = None,
      d_content = [], d_offset = 0, d_length = 0\<rparr>"

definition ex_client_dl :: Client where
  "ex_client_dl =
     ex_client\<lparr>dls := [10 \<mapsto> ex_dl], transfers := {DownloadRef 10},
       activeDownloadsByPeer := [''bob'' \<mapsto> 10], downloadSlotAvail := 2\<rparr>"

text \<open>
  The connection of the peer after \<^verbatim>\<open>MyNick\<close>, \<^verbatim>\<open>Lock\<close> and \<^verbatim>\<open>Supports\<close>: we asked for
  \<^verbatim>\<open>Download\<close> with bet 5.
\<close>

definition ex_conn_supports :: connPeer where
  "ex_conn_supports =
     ex_conn\<lparr>p_protoState := ''supports'', p_peer := Some ex_peer,
       p_localDirection := ''download'', p_localBet := 5\<rparr>"

definition ex_conn_direction :: connPeer where
  "ex_conn_direction =
     ex_conn_supports\<lparr>p_protoState := ''direction'', p_remoteDirection := ''download'',
       p_remoteBet := 7\<rparr>"


text \<open>
  The same client when a connection at address 2 is already registered for uploads to the
  peer, and an ADC client in that situation with a connection that has sent \<^verbatim>\<open>CSUP\<close>.
\<close>

definition ex_client_dup :: Client where
  "ex_client_dup = ex_client_dl\<lparr>connPeersByKey := [(''bob'', ''upload'') \<mapsto> 2]\<rparr>"

definition ex_client_adc :: Client where
  "ex_client_adc = ex_client_dup\<lparr>protoIsAdc := True\<rparr>"

definition ex_conn_adc :: connPeer where
  "ex_conn_adc = ex_conn\<lparr>p_protoState := ''supports''\<rparr>"

definition ex_fields :: "string \<rightharpoonup> string" where
  "ex_fields = [''ID'' \<mapsto> ''AEBAG'', ''TO'' \<mapsto> ''TOKEN'']"


text \<open>
  A client with one slot of each kind and a run on it: two downloads from the same peer
  are created, the first takes the slot and the second waits for it; the first fails and
  hands the slot over; the peer's request for the file list is served and ends.
\<close>

definition ex_client_one :: Client where
  "ex_client_one = ex_client\<lparr>downloadSlotAvail := 1, uploadSlotAvail := 1\<rparr>"

definition ex_events :: "event list" where
  "ex_events =
     [EvDownloadFile ex_env 10 ex_conf,
      EvDownloadFile ex_env 11 ex_conf,
      EvDoSlot 10,
      EvDoSlot 11,
      EvDownloadExit [DownloadRef 11] [DownloadRef 11] 10 (Some (Errorf ''timed out'')),
      EvNewUpload ex_env 20 1 (ex_conn\<lparr>p_peer := Some ex_peer, p_protoState := ''wait_upload''\<rparr>)
        ''file files.xml.bz2'' 0 (- 1) False,
      EvUploadExit 20 None]"


text \<open>
  A share with one file of ten bytes, a client that shares it, and the connection of the
  peer when it waits for upload requests.
\<close>

definition ex_share :: "shareDirectory list" where
  "ex_share =
     [ShareDirectory
        [\<lparr>tth = [9, 9, 9], realPath = ''/share/a.txt'', sizeBytes = 10, tthl = [[9, 9, 9]]\<rparr>] []]"

definition ex_client_share :: Client where
  "ex_client_share = ex_client\<lparr>shareTree := ex_share\<rparr>"

definition ex_conn_upload :: connPeer where
  "ex_conn_upload = ex_conn\<lparr>p_peer := Some ex_peer, p_protoState := ''wait_upload''\<rparr>"


text \<open>
  The download at address 10 when its request has been sent on the connection at address
  1, the same download with a path to save to, and an operating system that refuses to
  create files.
\<close>

definition ex_dl_proc :: Download where
  "ex_dl_proc = ex_dl\<lparr>d_state := ''processing'', d_pconn := Some 1\<rparr>"




text \<open>
  The download when the peer has announced five bytes: in memory, and on disk with an
  empty temporary file.
\<close>

definition ex_dl_ram :: Download where
  "ex_dl_ram =
     ex_dl_proc\<lparr>d_length := 5, d_content := [0, 0, 0, 0, 0],
       d_writer := Some \<lparr>w_sink = RamSink, w_data = [], w_closed = False\<rparr>\<rparr>"




section \<open>Properties\<close>


text \<open>The definitions of the concrete states, for the evaluation of the examples.\<close>

lemmas ex_defs =
  ex_fields_def ex_env_def ex_conn_adc_def ex_client_adc_def ex_client_dup_def
  ex_conn_direction_def ex_conn_supports_def ex_conn_def ex_client_dl_def ex_client_def
  ex_peer_def ex_dl_def ex_conf_def ex_protocol_def

subsection \<open>The direction election of the NMDC handshake\<close>






subsection \<open>One connection for a nick and a direction\<close>

lemma nmdcKey_direction_index:
  "nmdcKey_direction c p = (r, c1) \<Longrightarrow> connPeersByKey c1 = connPeersByKey c"
  by (auto simp: nmdcKey_direction_def peerRequestConnection_def
      split: if_splits option.splits prod.splits)

lemma nmdcKey_register_index:
  "nmdcKey_register c a p dir = (err, p', c') \<Longrightarrow> connPeersByKey c k = Some b \<Longrightarrow>
     connPeersByKey c' k = Some b"
  by (auto simp: nmdcKey_register_def Let_def split: if_splits option.splits prod.splits)

lemma nmdcKey_keeps_index:
  assumes "handleMessage_NmdcKey c a p = (err, p', c')" and "connPeersByKey c k = Some b"
  shows "connPeersByKey c' k = Some b"
proof (cases "p_protoState p = ''direction''")
  case False
  with assms show ?thesis by (simp add: handleMessage_NmdcKey_def)
next
  case True
  obtain r c1 where d: "nmdcKey_direction c (p\<lparr>p_protoState := ''key''\<rparr>) = (r, c1)"
    by (cases "nmdcKey_direction c (p\<lparr>p_protoState := ''key''\<rparr>)") auto
  from nmdcKey_direction_index [OF d] assms(2) have k: "connPeersByKey c1 k = Some b" by simp
  show ?thesis
  proof (cases r)
    case (Inl e)
    with True d assms(1) have "c' = c1" by (simp add: handleMessage_NmdcKey_def Let_def)
    with k show ?thesis by simp
  next
    case (Inr dir)
    with True d assms(1) have "nmdcKey_register c1 a (p\<lparr>p_protoState := ''key''\<rparr>) dir = (err, p', c')"
      by (simp add: handleMessage_NmdcKey_def Let_def)
    from nmdcKey_register_index [OF this k] show ?thesis .
  qed
qed

lemma adcInfos_register_index:
  "adcInfos_register c ord a p peer = (err, p', c') \<Longrightarrow> connPeersByKey c k = Some b \<Longrightarrow>
     connPeersByKey c' k = Some b"
  by (auto simp: adcInfos_register_def Let_def split: if_splits option.splits prod.splits)

lemma adcInfos_keeps_index:
  assumes "handleMessage_AdcCInfos ev c ord a p Fields = (err, p', c')"
    and "connPeersByKey c k = Some b"
  shows "connPeersByKey c' k = Some b"
  using assms
  by (auto simp: handleMessage_AdcCInfos_def Let_def dest: adcInfos_register_index
      split: if_splits option.splits prod.splits)

lemma nmdcKey_duplicate:
  assumes st: "p_protoState p = ''direction''"
    and peer: "p_peer p = Some peer"
    and dir: "fst (nmdcKey_direction c (p\<lparr>p_protoState := ''key''\<rparr>)) = Inr dir"
    and dup: "connPeersByKey c (Nick peer, dir) = Some b"
    and res: "handleMessage_NmdcKey c a p = (err, p', c')"
  shows "err = Some (Errorf ''a connection with this peer and direction already exists'')
    \<and> connPeersByKey c' = connPeersByKey c \<and> p_direction p' = p_direction p
    \<and> p_state p' = p_state p \<and> p_peer p' = p_peer p \<and> p_conn p' = p_conn p"
proof -
  obtain r c1 where d: "nmdcKey_direction c (p\<lparr>p_protoState := ''key''\<rparr>) = (r, c1)"
    by (cases "nmdcKey_direction c (p\<lparr>p_protoState := ''key''\<rparr>)") auto
  with dir have r: "r = Inr dir" by simp
  from nmdcKey_direction_index [OF d] have i: "connPeersByKey c1 = connPeersByKey c" .
  from st d r res have "nmdcKey_register c1 a (p\<lparr>p_protoState := ''key''\<rparr>) dir = (err, p', c')"
    by (simp add: handleMessage_NmdcKey_def Let_def)
  with peer dup i show ?thesis
    by (auto simp: nmdcKey_register_def Let_def)
qed

lemma adcInfos_duplicate:
  assumes st: "p_protoState p = ''supports''"
    and cid: "Fields adcFieldClientId = Some clientId"
    and peer: "peerByClientId c (dcBase32Decode ev clientId) = Some peer"
    and ans: "adcInfos_answer ev c (p\<lparr>p_protoState := ''infos'', p_peer := Some peer\<rparr>) peer Fields
                = (None, p3)"
    and dir: "dir = (if downloadByAdcToken c ord (p_adcToken p3) = None then ''upload''
                     else ''download'')"
    and dup: "connPeersByKey c (Nick peer, dir) = Some b"
    and res: "handleMessage_AdcCInfos ev c ord a p Fields = (err, p', c')"
  shows "err = Some (Errorf ''a connection with this peer and direction already exists'')
    \<and> connPeersByKey c' = connPeersByKey c \<and> p_direction p' = p_direction p
    \<and> p_state p' = p_state p \<and> p_peer p' = Some peer
    \<and> (p_conn p = None \<longleftrightarrow> p_conn p' = None)"
proof -
  from st cid peer ans res have r: "adcInfos_register c ord a p3 peer = (err, p', c')"
    by (simp add: handleMessage_AdcCInfos_def Let_def)
  from ans have p3: "p_direction p3 = p_direction p \<and> p_state p3 = p_state p \<and> p_peer p3 = Some peer
     \<and> (p_conn p = None \<longleftrightarrow> p_conn p3 = None)"
    by (auto simp: adcInfos_answer_def connWrite_def split: if_splits option.splits list.splits)
  from r dir dup p3 show ?thesis
    by (auto simp: adcInfos_register_def Let_def split: option.splits prod.splits if_splits)
qed

lemma do_exit_connected:
  assumes "p_state p = ''connected''" and "p_direction p = []"
    and "do_exit c ord1 ord2 a p err = (p', c')"
  shows "connPeersByKey c' = connPeersByKey c \<and> conns c' a = None
    \<and> (\<forall>pr. p_conn p = Some pr \<longrightarrow> p_conn p' = Some (pr\<lparr>connTerminated := True\<rparr>))"
  using assms by (auto simp: do_exit_def connTerminate_def Let_def split: option.splits)

text \<open>
  Claim C2. Neither handler that completes a handshake ever changes an entry that
  \<^verbatim>\<open>connPeersByKey\<close> already holds. When the key that the handler is about to insert (the
  peer's nick with the elected direction, or with the direction that the token decides on
  ADC) is present, the handler returns the error ``a connection with this peer and
  direction already exists'' and leaves the index as it was; the routine of the connection
  then ends with that error: it closes the socket and removes the connection from
  \<^verbatim>\<open>connPeers\<close>, and, the direction of the new connection being unset, it does not touch
  the index either.
\<close>

theorem duplicate_connection_rejected:
  "(handleMessage_NmdcKey c a p = (err, p', c') \<and> connPeersByKey c k = Some b \<longrightarrow>
      connPeersByKey c' k = Some b)
 \<and> (handleMessage_AdcCInfos ev c ord a p Fields = (err, p', c') \<and> connPeersByKey c k = Some b
      \<longrightarrow> connPeersByKey c' k = Some b)
 \<and> (p_state p = ''connected'' \<and> p_direction p = [] \<and> p_protoState p = ''direction''
      \<and> p_peer p = Some peer
      \<and> fst (nmdcKey_direction c (p\<lparr>p_protoState := ''key''\<rparr>)) = Inr dir
      \<and> connPeersByKey c (Nick peer, dir) = Some b
      \<and> handleMessage_NmdcKey c a p = (err, p', c')
      \<and> do_exit c' oa ob a p' err = (p'', c'') \<longrightarrow>
      err = Some (Errorf ''a connection with this peer and direction already exists'')
      \<and> connPeersByKey c' = connPeersByKey c
      \<and> connPeersByKey c'' = connPeersByKey c
      \<and> conns c'' a = None
      \<and> (\<forall>pr. p_conn p' = Some pr \<longrightarrow> p_conn p'' = Some (pr\<lparr>connTerminated := True\<rparr>)))
 \<and> (p_state p = ''connected'' \<and> p_direction p = [] \<and> p_protoState p = ''supports''
      \<and> Fields adcFieldClientId = Some clientId
      \<and> peerByClientId c (dcBase32Decode ev clientId) = Some peer
      \<and> adcInfos_answer ev c (p\<lparr>p_protoState := ''infos'', p_peer := Some peer\<rparr>) peer Fields
            = (None, q)
      \<and> dir = (if downloadByAdcToken c ord (p_adcToken q) = None then ''upload''
                else ''download'')
      \<and> connPeersByKey c (Nick peer, dir) = Some b
      \<and> handleMessage_AdcCInfos ev c ord a p Fields = (err, p', c')
      \<and> do_exit c' oa ob a p' err = (p'', c'') \<longrightarrow>
      err = Some (Errorf ''a connection with this peer and direction already exists'')
      \<and> connPeersByKey c' = connPeersByKey c
      \<and> connPeersByKey c'' = connPeersByKey c
      \<and> conns c'' a = None
      \<and> (\<forall>pr. p_conn p' = Some pr \<longrightarrow> p_conn p'' = Some (pr\<lparr>connTerminated := True\<rparr>)))"
proof -
  have A: "handleMessage_NmdcKey c a p = (err, p', c') \<and> connPeersByKey c k = Some b \<longrightarrow>
      connPeersByKey c' k = Some b"
    using nmdcKey_keeps_index by blast
  have B: "handleMessage_AdcCInfos ev c ord a p Fields = (err, p', c')
      \<and> connPeersByKey c k = Some b \<longrightarrow> connPeersByKey c' k = Some b"
    using adcInfos_keeps_index by blast
  have C: "p_state p = ''connected'' \<and> p_direction p = [] \<and> p_protoState p = ''direction''
      \<and> p_peer p = Some peer
      \<and> fst (nmdcKey_direction c (p\<lparr>p_protoState := ''key''\<rparr>)) = Inr dir
      \<and> connPeersByKey c (Nick peer, dir) = Some b
      \<and> handleMessage_NmdcKey c a p = (err, p', c')
      \<and> do_exit c' oa ob a p' err = (p'', c'') \<longrightarrow>
      err = Some (Errorf ''a connection with this peer and direction already exists'')
      \<and> connPeersByKey c' = connPeersByKey c
      \<and> connPeersByKey c'' = connPeersByKey c
      \<and> conns c'' a = None
      \<and> (\<forall>pr. p_conn p' = Some pr \<longrightarrow> p_conn p'' = Some (pr\<lparr>connTerminated := True\<rparr>))"
  proof (rule impI)
    assume h: "p_state p = ''connected'' \<and> p_direction p = [] \<and> p_protoState p = ''direction''
      \<and> p_peer p = Some peer
      \<and> fst (nmdcKey_direction c (p\<lparr>p_protoState := ''key''\<rparr>)) = Inr dir
      \<and> connPeersByKey c (Nick peer, dir) = Some b
      \<and> handleMessage_NmdcKey c a p = (err, p', c')
      \<and> do_exit c' oa ob a p' err = (p'', c'')"
    then have d: "err = Some (Errorf ''a connection with this peer and direction already exists'')
      \<and> connPeersByKey c' = connPeersByKey c \<and> p_direction p' = p_direction p
      \<and> p_state p' = p_state p \<and> p_peer p' = p_peer p \<and> p_conn p' = p_conn p"
      using nmdcKey_duplicate [of p peer c dir b a err p' c'] by blast
    with h have "connPeersByKey c'' = connPeersByKey c' \<and> conns c'' a = None
      \<and> (\<forall>pr. p_conn p' = Some pr \<longrightarrow> p_conn p'' = Some (pr\<lparr>connTerminated := True\<rparr>))"
      using do_exit_connected [of p' c' oa ob a err p'' c''] by simp
    with d show "err = Some (Errorf ''a connection with this peer and direction already exists'')
      \<and> connPeersByKey c' = connPeersByKey c
      \<and> connPeersByKey c'' = connPeersByKey c
      \<and> conns c'' a = None
      \<and> (\<forall>pr. p_conn p' = Some pr \<longrightarrow> p_conn p'' = Some (pr\<lparr>connTerminated := True\<rparr>))"
      by simp
  qed
  have D: "p_state p = ''connected'' \<and> p_direction p = [] \<and> p_protoState p = ''supports''
      \<and> Fields adcFieldClientId = Some clientId
      \<and> peerByClientId c (dcBase32Decode ev clientId) = Some peer
      \<and> adcInfos_answer ev c (p\<lparr>p_protoState := ''infos'', p_peer := Some peer\<rparr>) peer Fields
            = (None, q)
      \<and> dir = (if downloadByAdcToken c ord (p_adcToken q) = None then ''upload''
                else ''download'')
      \<and> connPeersByKey c (Nick peer, dir) = Some b
      \<and> handleMessage_AdcCInfos ev c ord a p Fields = (err, p', c')
      \<and> do_exit c' oa ob a p' err = (p'', c'') \<longrightarrow>
      err = Some (Errorf ''a connection with this peer and direction already exists'')
      \<and> connPeersByKey c' = connPeersByKey c
      \<and> connPeersByKey c'' = connPeersByKey c
      \<and> conns c'' a = None
      \<and> (\<forall>pr. p_conn p' = Some pr \<longrightarrow> p_conn p'' = Some (pr\<lparr>connTerminated := True\<rparr>))"
  proof (rule impI)
    assume h: "p_state p = ''connected'' \<and> p_direction p = [] \<and> p_protoState p = ''supports''
      \<and> Fields adcFieldClientId = Some clientId
      \<and> peerByClientId c (dcBase32Decode ev clientId) = Some peer
      \<and> adcInfos_answer ev c (p\<lparr>p_protoState := ''infos'', p_peer := Some peer\<rparr>) peer Fields
            = (None, q)
      \<and> dir = (if downloadByAdcToken c ord (p_adcToken q) = None then ''upload''
                else ''download'')
      \<and> connPeersByKey c (Nick peer, dir) = Some b
      \<and> handleMessage_AdcCInfos ev c ord a p Fields = (err, p', c')
      \<and> do_exit c' oa ob a p' err = (p'', c'')"
    then have d: "err = Some (Errorf ''a connection with this peer and direction already exists'')
      \<and> connPeersByKey c' = connPeersByKey c \<and> p_direction p' = p_direction p
      \<and> p_state p' = p_state p \<and> p_peer p' = Some peer
      \<and> (p_conn p = None \<longleftrightarrow> p_conn p' = None)"
      using adcInfos_duplicate [of p Fields clientId c ev peer q dir ord b a err p' c'] by blast
    with h have "connPeersByKey c'' = connPeersByKey c' \<and> conns c'' a = None
      \<and> (\<forall>pr. p_conn p' = Some pr \<longrightarrow> p_conn p'' = Some (pr\<lparr>connTerminated := True\<rparr>))"
      using do_exit_connected [of p' c' oa ob a err p'' c''] by simp
    with d show "err = Some (Errorf ''a connection with this peer and direction already exists'')
      \<and> connPeersByKey c' = connPeersByKey c
      \<and> connPeersByKey c'' = connPeersByKey c
      \<and> conns c'' a = None
      \<and> (\<forall>pr. p_conn p' = Some pr \<longrightarrow> p_conn p'' = Some (pr\<lparr>connTerminated := True\<rparr>))"
      by simp
  qed
  show ?thesis
    by (intro conjI, rule A, rule B, rule C, rule D)
qed


text \<open>
  The peer already has an upload connection at address 2. The NMDC handshake that elects
  \<^verbatim>\<open>upload\<close> and the ADC handshake of a connection that no download waits for both end
  with the error, and the index still holds the old entry after the connection's exit.
\<close>

theorem duplicate_connection_rejected_witness:
  "fst (handleMessage_NmdcKey ex_client_dup 1 ex_conn_direction) =
     Some (Errorf ''a connection with this peer and direction already exists'')
   \<and> connPeersByKey
        (snd (do_exit (snd (snd (handleMessage_NmdcKey ex_client_dup 1 ex_conn_direction)))
                [] [] 1 (fst (snd (handleMessage_NmdcKey ex_client_dup 1 ex_conn_direction)))
                (fst (handleMessage_NmdcKey ex_client_dup 1 ex_conn_direction))))
       = connPeersByKey ex_client_dup
   \<and> connPeersByKey ex_client_dup (''bob'', ''upload'') = Some 2
   \<and> fst (handleMessage_AdcCInfos ex_env ex_client_adc [] 1 ex_conn_adc ex_fields) =
       Some (Errorf ''a connection with this peer and direction already exists'')
   \<and> connPeersByKey
        (snd (do_exit
                (snd (snd (handleMessage_AdcCInfos ex_env ex_client_adc [] 1 ex_conn_adc
                             ex_fields)))
                [] [] 1
                (fst (snd (handleMessage_AdcCInfos ex_env ex_client_adc [] 1 ex_conn_adc
                             ex_fields)))
                (fst (handleMessage_AdcCInfos ex_env ex_client_adc [] 1 ex_conn_adc
                        ex_fields))))
       = connPeersByKey ex_client_adc"
proof -
  let ?R = "handleMessage_NmdcKey ex_client_dup 1 ex_conn_direction"
  let ?X = "do_exit (snd (snd ?R)) [] [] 1 (fst (snd ?R)) (fst ?R)"
  let ?S = "handleMessage_AdcCInfos ex_env ex_client_adc [] 1 ex_conn_adc ex_fields"
  let ?Y = "do_exit (snd (snd ?S)) [] [] 1 (fst (snd ?S)) (fst ?S)"
  let ?q = "connWrite (ex_conn_adc\<lparr>p_protoState := ''infos'', p_peer := Some ex_peer,
               p_adcToken := ''TOKEN''\<rparr>) (msgAdcCInfos [adcFieldClientId \<mapsto> ''AEBAG''])"
  have k: "connPeersByKey ex_client_dup (''bob'', ''upload'') = Some 2"
    by (simp add: ex_client_dup_def)
  have n: "p_state ex_conn_direction = ''connected'' \<and> p_direction ex_conn_direction = []
      \<and> p_protoState ex_conn_direction = ''direction''
      \<and> p_peer ex_conn_direction = Some ex_peer
      \<and> fst (nmdcKey_direction ex_client_dup (ex_conn_direction\<lparr>p_protoState := ''key''\<rparr>))
            = Inr ''upload''
      \<and> connPeersByKey ex_client_dup (Nick ex_peer, ''upload'') = Some 2
      \<and> ?R = (fst ?R, fst (snd ?R), snd (snd ?R))
      \<and> ?X = (fst ?X, snd ?X)"
    by (simp add: nmdcKey_direction_def downloadPendingByPeer_def peerRequestConnection_def
        ex_defs DownloadFile_conf_def)
  have m: "p_state ex_conn_adc = ''connected'' \<and> p_direction ex_conn_adc = []
      \<and> p_protoState ex_conn_adc = ''supports''
      \<and> ex_fields adcFieldClientId = Some ''AEBAG''
      \<and> peerByClientId ex_client_adc (dcBase32Decode ex_env ''AEBAG'') = Some ex_peer
      \<and> adcInfos_answer ex_env ex_client_adc
            (ex_conn_adc\<lparr>p_protoState := ''infos'', p_peer := Some ex_peer\<rparr>) ex_peer ex_fields
            = (None, ?q)
      \<and> ''upload'' = (if downloadByAdcToken ex_client_adc [] (p_adcToken ?q) = None
                        then ''upload'' else ''download'')
      \<and> connPeersByKey ex_client_adc (Nick ex_peer, ''upload'') = Some 2
      \<and> ?S = (fst ?S, fst (snd ?S), snd (snd ?S))
      \<and> ?Y = (fst ?Y, snd ?Y)"
    by (simp add: adcInfos_answer_def downloadByAdcToken_def connWrite_def peerByClientId_def
        adcFieldClientId_def adcFieldToken_def ex_defs)
  from n duplicate_connection_rejected [where c = ex_client_dup and a = 1
      and p = ex_conn_direction and peer = ex_peer and dir = "''upload''" and b = 2
      and err = "fst ?R" and p' = "fst (snd ?R)" and c' = "snd (snd ?R)"
      and oa = "[]" and ob = "[]" and p'' = "fst ?X" and c'' = "snd ?X",
      THEN conjunct2, THEN conjunct2, THEN conjunct1]
  have a: "fst ?R = Some (Errorf ''a connection with this peer and direction already exists'')
      \<and> connPeersByKey (snd ?X) = connPeersByKey ex_client_dup"
    by blast
  from m duplicate_connection_rejected [where c = ex_client_adc and a = 1
      and p = ex_conn_adc and peer = ex_peer and dir = "''upload''" and b = 2
      and ev = ex_env and ord = "[]" and Fields = ex_fields and clientId = "''AEBAG''"
      and q = ?q
      and err = "fst ?S" and p' = "fst (snd ?S)" and c' = "snd (snd ?S)"
      and oa = "[]" and ob = "[]" and p'' = "fst ?Y" and c'' = "snd ?Y",
      THEN conjunct2, THEN conjunct2, THEN conjunct2]
  have b: "fst ?S = Some (Errorf ''a connection with this peer and direction already exists'')
      \<and> connPeersByKey (snd ?Y) = connPeersByKey ex_client_adc"
    by blast
  from a b k show ?thesis by blast
qed


subsection \<open>Termination of a peer connection\<close>

text \<open>
  Claim C8 says that \<^verbatim>\<open>terminate()\<close> is permitted in every state. In the two delegated
  states the switch of \<^verbatim>\<open>terminate()\<close> reaches its default case: a connection that holds
  a download panics.
\<close>

theorem terminate_delegated_counterexample:
  "terminate (ex_conn\<lparr>p_state := ''delegated_download'', p_transfer := Some (DownloadRef 10)\<rparr>)
     = Inl (Panic (''terminate() unsupported in state '' @ [CHR 0x27] @ ''delegated_download''
                     @ [CHR 0x27]))"
  by (simp add: terminate_def ex_conn_def)

text \<open>
  Claim C8, amended. In the states \<^verbatim>\<open>pre_connecting\<close>, \<^verbatim>\<open>connecting\<close>, \<^verbatim>\<open>pre_connected\<close>,
  \<^verbatim>\<open>connected\<close> and \<^verbatim>\<open>terminated\<close>, \<^verbatim>\<open>terminate()\<close> does not panic and leaves the connection
  in state \<^verbatim>\<open>terminated\<close>; it is without effect when the connection is terminated
  already, it signals \<^verbatim>\<open>wakeUp\<close> in state \<^verbatim>\<open>connecting\<close>, it closes the socket in state
  \<^verbatim>\<open>connected\<close> and leaves it alone otherwise, and it never touches the transfer. The
  exit of the connection's routine then closes the socket of any connection that has one.
  In the states \<^verbatim>\<open>delegated_upload\<close> and \<^verbatim>\<open>delegated_download\<close>, \<^verbatim>\<open>terminate()\<close> panics.
\<close>

theorem terminate_states:
  "(p_state p = ''pre_connecting'' \<or> p_state p = ''connecting'' \<or> p_state p = ''pre_connected''
      \<or> p_state p = ''connected'' \<or> p_state p = ''terminated'' \<longrightarrow>
      (\<exists>p'. terminate p = Inr p'
         \<and> p_state p' = ''terminated''
         \<and> p_transfer p' = p_transfer p
         \<and> (p_state p = ''terminated'' \<longrightarrow> p' = p)
         \<and> (p_state p = ''connecting'' \<longrightarrow> p_wakeUp p' = p_wakeUp p + 1)
         \<and> (p_state p = ''connected'' \<longrightarrow>
               p_conn p' = map_option (\<lambda>pr. pr\<lparr>connTerminated := True\<rparr>) (p_conn p))
         \<and> (p_state p \<noteq> ''connected'' \<longrightarrow> p_conn p' = p_conn p)
         \<and> p_conn (fst (do_exit c oa ob a p' err))
               = map_option (\<lambda>pr. pr\<lparr>connTerminated := True\<rparr>) (p_conn p)))
 \<and> (p_state p = ''delegated_upload'' \<or> p_state p = ''delegated_download'' \<longrightarrow>
      terminate p =
        Inl (Panic (''terminate() unsupported in state '' @ [CHR 0x27] @ p_state p @ [CHR 0x27])))"
  by (auto simp: terminate_def do_exit_def connTerminate_def Let_def split: option.splits)

text \<open>
  An accepted connection that has not started its handshake is marked as terminated and
  keeps its socket open until its routine exits; a connected one is closed at once.
\<close>

theorem terminate_states_witness:
  "(\<exists>p'. terminate (ex_conn\<lparr>p_state := ''pre_connected''\<rparr>) = Inr p'
        \<and> p_state p' = ''terminated''
        \<and> p_conn p' = Some ex_protocol
        \<and> p_conn (fst (do_exit ex_client [] [] 1 p' (Some errorTerminated)))
              = Some (ex_protocol\<lparr>connTerminated := True\<rparr>))
   \<and> (\<exists>p'. terminate ex_conn = Inr p'
        \<and> p_state p' = ''terminated''
        \<and> p_conn p' = Some (ex_protocol\<lparr>connTerminated := True\<rparr>))"
proof -
  have a: "p_state (ex_conn\<lparr>p_state := ''pre_connected''\<rparr>) = ''pre_connected''
      \<and> p_conn (ex_conn\<lparr>p_state := ''pre_connected''\<rparr>) = Some ex_protocol"
    by (simp add: ex_conn_def)
  have b: "p_state ex_conn = ''connected'' \<and> p_conn ex_conn = Some ex_protocol"
    by (simp add: ex_conn_def)
  from a terminate_states [where p = "ex_conn\<lparr>p_state := ''pre_connected''\<rparr>"
      and c = ex_client and oa = "[]" and ob = "[]" and a = 1 and err = "Some errorTerminated",
      THEN conjunct1]
  have x: "\<exists>p'. terminate (ex_conn\<lparr>p_state := ''pre_connected''\<rparr>) = Inr p'
        \<and> p_state p' = ''terminated''
        \<and> p_conn p' = Some ex_protocol
        \<and> p_conn (fst (do_exit ex_client [] [] 1 p' (Some errorTerminated)))
              = Some (ex_protocol\<lparr>connTerminated := True\<rparr>)"
    by auto
  from b terminate_states [where p = ex_conn
      and c = ex_client and oa = "[]" and ob = "[]" and a = 1 and err = "Some errorTerminated",
      THEN conjunct1]
  have y: "\<exists>p'. terminate ex_conn = Inr p'
        \<and> p_state p' = ''terminated''
        \<and> p_conn p' = Some (ex_protocol\<lparr>connTerminated := True\<rparr>)"
    by auto
  from x y show ?thesis by blast
qed


subsection \<open>The slot counters\<close>

lemma wake_activedl_slots:
  "downloadSlotAvail (wake_activedl c a d ts) = downloadSlotAvail c
   \<and> uploadSlotAvail (wake_activedl c a d ts) = uploadSlotAvail c"
  by (induction c a d ts rule: wake_activedl.induct) (auto split: option.splits)

lemma wake_slot_slots:
  "downloadSlotAvail c - 1 \<le> downloadSlotAvail (wake_slot c ts)
   \<and> downloadSlotAvail (wake_slot c ts) \<le> downloadSlotAvail c
   \<and> uploadSlotAvail (wake_slot c ts) = uploadSlotAvail c"
  by (induction c ts rule: wake_slot.induct) (auto split: option.splits)

lemma Download_handleExit_slots:
  "downloadSlotAvail c \<le> downloadSlotAvail (Download_handleExit c ord1 ord2 a err)
   \<and> downloadSlotAvail (Download_handleExit c ord1 ord2 a err) \<le> downloadSlotAvail c + 1
   \<and> uploadSlotAvail (Download_handleExit c ord1 ord2 a err) = uploadSlotAvail c"
proof (cases "dls c a")
  case None
  then show ?thesis by (simp add: Download_handleExit_def)
next
  case (Some d)
  let ?c2 = "c\<lparr>transfers := transfers c - {DownloadRef a},
               activeDownloadsByPeer := (activeDownloadsByPeer c)(Nick (Peer (d_conf d)) := None)\<rparr>"
  let ?c3 = "wake_activedl ?c2 a d (filter (\<lambda>t. t \<in> transfers ?c2) ord1)"
  let ?c4 = "?c3\<lparr>downloadSlotAvail := downloadSlotAvail ?c3 + 1\<rparr>"
  let ?c5 = "wake_slot ?c4 (filter (\<lambda>t. t \<in> transfers ?c4) ord2)"
  have 3: "downloadSlotAvail ?c3 = downloadSlotAvail c \<and> uploadSlotAvail ?c3 = uploadSlotAvail c"
    using wake_activedl_slots [of ?c2 a d "filter (\<lambda>t. t \<in> transfers ?c2) ord1"] by simp
  have 5: "downloadSlotAvail ?c4 - 1 \<le> downloadSlotAvail ?c5
    \<and> downloadSlotAvail ?c5 \<le> downloadSlotAvail ?c4 \<and> uploadSlotAvail ?c5 = uploadSlotAvail ?c4"
    using wake_slot_slots [of ?c4 "filter (\<lambda>t. t \<in> transfers ?c4) ord2"] by blast
  from 3 5 have 6: "downloadSlotAvail c \<le> downloadSlotAvail ?c5
    \<and> downloadSlotAvail ?c5 \<le> downloadSlotAvail c + 1 \<and> uploadSlotAvail ?c5 = uploadSlotAvail c"
    by simp
  have "downloadSlotAvail (Download_handleExit c ord1 ord2 a err) = downloadSlotAvail ?c5
    \<and> uploadSlotAvail (Download_handleExit c ord1 ord2 a err) = uploadSlotAvail ?c5"
    using Some by (simp add: Download_handleExit_def Let_def)
  with 6 show ?thesis by simp
qed

lemma do_slot_slots:
  "downloadSlotAvail (do_slot c a) =
     (if dls c a \<noteq> None \<and> 0 < downloadSlotAvail c then downloadSlotAvail c - 1
      else downloadSlotAvail c)
   \<and> uploadSlotAvail (do_slot c a) = uploadSlotAvail c"
  by (auto simp: do_slot_def split: option.splits)

lemma newUpload_slots:
  "newUpload ev c ua pa p q s l z = Inr (ok, p', c') \<Longrightarrow>
     downloadSlotAvail c' = downloadSlotAvail c
     \<and> uploadSlotAvail c' = (if ok then uploadSlotAvail c - 1 else uploadSlotAvail c)
     \<and> (ok \<longrightarrow> 0 < uploadSlotAvail c)"
proof -
  assume r: "newUpload ev c ua pa p q s l z = Inr (ok, p', c')"
  have o: "\<And>u u1. newUpload_open ev c u l = Inr u1 \<Longrightarrow> 0 < uploadSlotAvail c"
    by (auto simp: newUpload_open_def split: if_splits)
  from r show ?thesis
    by (auto simp: newUpload_def Let_def dest: o split: if_splits sum.splits error.splits)
qed

lemma upload_handleExit_slots:
  "downloadSlotAvail (upload_handleExit c ua err) = downloadSlotAvail c
   \<and> uploadSlotAvail c \<le> uploadSlotAvail (upload_handleExit c ua err)"
  by (auto simp: upload_handleExit_def Let_def split: option.splits)

lemma other_slots:
  "downloadSlotAvail (DownloadFile ev c a conf) = downloadSlotAvail c"
  "uploadSlotAvail (DownloadFile ev c a conf) = uploadSlotAvail c"
  "downloadSlotAvail (Close c a) = downloadSlotAvail c"
  "uploadSlotAvail (Close c a) = uploadSlotAvail c"
  "downloadSlotAvail (do_activedl c a) = downloadSlotAvail c"
  "uploadSlotAvail (do_activedl c a) = uploadSlotAvail c"
  "downloadSlotAvail (do_peer ev c a) = downloadSlotAvail c"
  "uploadSlotAvail (do_peer ev c a) = uploadSlotAvail c"
  by (auto simp: DownloadFile_def Close_def do_activedl_def do_peer_def Let_def
      peerRequestConnection_def split: option.splits)

lemma apply_event_slots:
  assumes "0 \<le> downloadSlotAvail c \<and> 0 \<le> uploadSlotAvail c"
  shows "0 \<le> downloadSlotAvail (apply_event c e) \<and> 0 \<le> uploadSlotAvail (apply_event c e)"
proof (cases e)
  case (EvDownloadExit ord1 ord2 a err)
  with assms Download_handleExit_slots [of c ord1 ord2 a err] show ?thesis by simp
next
  case (EvNewUpload ev ua pa p q s l z)
  show ?thesis
  proof (cases "newUpload ev c ua pa p q s l z")
    case (Inl e)
    with EvNewUpload assms show ?thesis by simp
  next
    case (Inr r)
    obtain ok p' c' where r: "r = (ok, p', c')" by (cases r) auto
    with Inr newUpload_slots [of ev c ua pa p q s l z ok p' c'] assms EvNewUpload
    show ?thesis by (auto split: if_splits)
  qed
next
  case (EvUploadExit ua err)
  with assms upload_handleExit_slots [of c ua err] show ?thesis by simp
next
  case (EvDoSlot a)
  with assms do_slot_slots [of c a] show ?thesis by (auto split: if_splits)
qed (use assms in \<open>simp_all add: other_slots\<close>)

lemma run_events_slots:
  "0 \<le> downloadSlotAvail c \<and> 0 \<le> uploadSlotAvail c \<Longrightarrow>
   0 \<le> downloadSlotAvail (run_events c evs) \<and> 0 \<le> uploadSlotAvail (run_events c evs)"
  unfolding run_events_def
proof (induction evs arbitrary: c)
  case Nil
  then show ?case by simp
next
  case (Cons e evs)
  from apply_event_slots [OF Cons.prems] Cons.IH [of "apply_event c e"]
  show ?case by simp
qed

text \<open>
  Claim C7. From a client whose two counters are not negative, no sequence of events leads
  to a negative counter. The reasons are the four places that change a counter: the slot
  section of \<^verbatim>\<open>Download.do\<close> takes a download slot only when the counter is positive; the
  terminal handler of a download leaves the counter at its value or one above it, since
  it hands over only the slot it has just freed; \<^verbatim>\<open>newUpload\<close> takes an upload slot only
  when it starts an upload, which needs a positive counter; the terminal handler of an
  upload only frees a slot.
\<close>

theorem slot_counters_never_negative:
  "(0 \<le> downloadSlotAvail c \<and> 0 \<le> uploadSlotAvail c \<longrightarrow>
      0 \<le> downloadSlotAvail (run_events c evs) \<and> 0 \<le> uploadSlotAvail (run_events c evs))
 \<and> downloadSlotAvail (do_slot c a) =
      (if dls c a \<noteq> None \<and> 0 < downloadSlotAvail c then downloadSlotAvail c - 1
       else downloadSlotAvail c)
 \<and> downloadSlotAvail c \<le> downloadSlotAvail (Download_handleExit c oa ob a err)
 \<and> downloadSlotAvail (Download_handleExit c oa ob a err) \<le> downloadSlotAvail c + 1
 \<and> (newUpload ev c ua pa p q s l z = Inr (ok, p', c') \<longrightarrow>
      uploadSlotAvail c' = (if ok then uploadSlotAvail c - 1 else uploadSlotAvail c)
      \<and> (ok \<longrightarrow> 0 < uploadSlotAvail c))
 \<and> uploadSlotAvail c \<le> uploadSlotAvail (upload_handleExit c ua err)"
proof -
  have A: "0 \<le> downloadSlotAvail c \<and> 0 \<le> uploadSlotAvail c \<longrightarrow>
      0 \<le> downloadSlotAvail (run_events c evs) \<and> 0 \<le> uploadSlotAvail (run_events c evs)"
    using run_events_slots by blast
  have B: "newUpload ev c ua pa p q s l z = Inr (ok, p', c') \<longrightarrow>
      uploadSlotAvail c' = (if ok then uploadSlotAvail c - 1 else uploadSlotAvail c)
      \<and> (ok \<longrightarrow> 0 < uploadSlotAvail c)"
    using newUpload_slots by blast
  from A B do_slot_slots [of c a] Download_handleExit_slots [of c oa ob a err]
    upload_handleExit_slots [of c ua err]
  show ?thesis by blast
qed

text \<open>
  The run on the client with one slot of each kind ends with the download slot in the
  hands of the second download and the upload slot free again.
\<close>

theorem slot_counters_never_negative_witness:
  "0 \<le> downloadSlotAvail (run_events ex_client_one ex_events)
   \<and> 0 \<le> uploadSlotAvail (run_events ex_client_one ex_events)
   \<and> downloadSlotAvail (run_events ex_client_one (take 3 ex_events)) = 0
   \<and> downloadSlotAvail (run_events ex_client_one (take 5 ex_events)) = 0
   \<and> uploadSlotAvail (run_events ex_client_one (take 6 ex_events)) = 0
   \<and> uploadSlotAvail (run_events ex_client_one ex_events) = 1"
proof -
  have h: "0 \<le> downloadSlotAvail ex_client_one \<and> 0 \<le> uploadSlotAvail ex_client_one"
    by (simp add: ex_client_one_def ex_client_def)
  from h slot_counters_never_negative [where c = ex_client_one and evs = ex_events,
      THEN conjunct1]
  have a: "0 \<le> downloadSlotAvail (run_events ex_client_one ex_events)
    \<and> 0 \<le> uploadSlotAvail (run_events ex_client_one ex_events)"
    by blast
  have b: "downloadSlotAvail (run_events ex_client_one (take 3 ex_events)) = 0
    \<and> downloadSlotAvail (run_events ex_client_one (take 5 ex_events)) = 0"
    by (simp add: run_events_def ex_events_def ex_client_one_def ex_client_def DownloadFile_def
        DownloadFile_conf_def do_slot_def Download_handleExit_def ex_conf_def ex_env_def
        ex_peer_def Let_def)
  have c: "uploadSlotAvail (run_events ex_client_one (take 6 ex_events)) = 0
    \<and> uploadSlotAvail (run_events ex_client_one ex_events) = 1"
    by (simp add: run_events_def ex_events_def ex_client_one_def ex_client_def DownloadFile_def
        DownloadFile_conf_def do_slot_def Download_handleExit_def ex_conf_def ex_env_def
        ex_peer_def newUpload_def newUpload_open_def upload_handleExit_def connWrite_def
        ex_conn_def ex_protocol_def Let_def)
  from a b c show ?thesis by blast
qed

subsection \<open>Closing a waiting download\<close>

text \<open>
  Claim C9 says that a download closed while it waits ends without a callback. The
  download at address 10 waits for a connection of its peer and the embedder has set
  \<^verbatim>\<open>OnDownloadError\<close>. \<^verbatim>\<open>Close()\<close> posts to the \<^verbatim>\<open>terminate\<close> channel; the \<^verbatim>\<open>select\<close> of
  \<^verbatim>\<open>Download.do\<close> receives it and the wait ends with \<^verbatim>\<open>errorTerminated\<close>; \<^verbatim>\<open>do\<close> passes
  that error to \<^verbatim>\<open>handleExit\<close>, which invokes \<^verbatim>\<open>OnDownloadError\<close> for the download.
\<close>

theorem Close_waiting_invokes_OnDownloadError:
  "map_option d_state (dls ex_client_dl 10) = Some ''waiting_peer''
   \<and> hasOnDownloadError ex_client_dl = True
   \<and> callbacks ex_client_dl = []
   \<and> map_option d_terminateRequested (dls (Close ex_client_dl 10) 10) = Some True
   \<and> map_option d_terminate (dls (Close ex_client_dl 10) 10) = Some 1
   \<and> do_wait RecvTerminate = Some errorTerminated
   \<and> callbacks (do_end (Close ex_client_dl 10) [DownloadRef 10] [DownloadRef 10] 10
        (do_wait RecvTerminate)) = [OnDownloadError 10]"
  by (simp add: Close_def do_wait_def do_end_def Download_handleExit_def ex_client_dl_def
      ex_client_def ex_dl_def ex_conf_def DownloadFile_conf_def ex_peer_def Let_def)


subsection \<open>Refused uploads\<close>

lemma find_SomeD: "find P xs = Some x \<Longrightarrow> x \<in> set xs \<and> P x"
  by (induction xs) (auto split: if_splits)

lemma scan_None:
  "(scanDir t dir = None \<longleftrightarrow> (\<forall>f \<in> set (allFiles dir). tth f \<noteq> t))"
  "(scanDirs t ds = None \<longleftrightarrow> (\<forall>f \<in> set (concat (map allFiles ds)). tth f \<noteq> t))"
  by (induction t dir and t ds rule: scanDir_scanDirs.induct)
     (auto simp: find_None_iff dest: find_SomeD split: option.splits)

lemma newUpload_open_NoSlots:
  "newUpload_open ev c u l = Inl errorNoSlots \<longleftrightarrow> uploadSlotAvail c \<le> 0"
  by (auto simp: newUpload_open_def Let_def split: sum.splits option.splits)

lemma newUpload_open_Panic:
  "newUpload_open ev c u l = Inl (Panic m) \<Longrightarrow>
     0 < uploadSlotAvail c \<and> u_query u \<noteq> ''file files.xml.bz2'' \<and> length (u_query u) < 9"
  by (auto simp: newUpload_open_def Let_def split: sum.splits option.splits if_splits)

lemma newUpload_Inl_reply:
  assumes "p_peer p \<noteq> None"
    and "newUpload_open ev c
           \<lparr>u_terminateRequested = False, u_state = ''processing'', u_pconn = pa,
            u_reader = None, u_readerClosed = False,
            u_isCompressed = (PeerDisableCompression c = False \<and> z = True),
            u_query = q, u_start = s, u_length = 0, u_offset = 0\<rparr> l = Inl e"
    and "\<forall>m. e \<noteq> Panic m"
  shows "newUpload ev c ua pa p q s l z =
     Inr (False,
          connWrite p
            (if e = errorNoSlots
             then (if protoIsAdc c then msgAdcCStatus adcStatusWarning adcCodeSlotsFull ''Slots full''
                   else msgNmdcMaxedOut)
             else (if protoIsAdc c
                   then msgAdcCStatus adcStatusWarning adcCodeFileNotAvailable ''File Not Available''
                   else msgNmdcError ''File Not Available'')),
          c)"
  using assms by (cases e) (simp_all add: newUpload_def Let_def)

lemma newUpload_started:
  assumes "newUpload ev c ua pa p q s l z = Inr (True, p', c')"
  shows "\<exists>u1. newUpload_open ev c
           \<lparr>u_terminateRequested = False, u_state = ''processing'', u_pconn = pa,
            u_reader = None, u_readerClosed = False,
            u_isCompressed = (PeerDisableCompression c = False \<and> z = True),
            u_query = q, u_start = s, u_length = 0, u_offset = 0\<rparr> l = Inr u1"
  using assms by (auto simp: newUpload_def Let_def split: if_splits sum.splits error.splits)

lemma newUpload_failed:
  assumes "newUpload ev c ua pa p q s l z = Inr (False, p', c')"
  shows "c' = c \<and>
     p' = connWrite p
            (if uploadSlotAvail c \<le> 0
             then (if protoIsAdc c then msgAdcCStatus adcStatusWarning adcCodeSlotsFull ''Slots full''
                   else msgNmdcMaxedOut)
             else (if protoIsAdc c
                   then msgAdcCStatus adcStatusWarning adcCodeFileNotAvailable ''File Not Available''
                   else msgNmdcError ''File Not Available''))"
  using assms newUpload_open_NoSlots [of ev c _ l]
  by (auto simp: newUpload_def Let_def split: if_splits sum.splits error.splits)


text \<open>
  Claim C6. A request on a connection that knows its peer is refused without starting an
  upload in two cases. With no upload slot available, \<^verbatim>\<open>newUpload\<close> returns \<^verbatim>\<open>false\<close> after
  writing \<^verbatim>\<open>MaxedOut\<close> (NMDC) or the status of type warning with the code for full slots
  and the message ``Slots full'' (ADC). With a slot available and a query whose TTH no
  file of the share tree has, it returns \<^verbatim>\<open>false\<close> after writing the error ``File Not
  Available'' (NMDC) or the status of type warning with the code for a file that is not
  available (ADC). In both cases the client is returned as it was (no transfer added, no
  slot taken) and the connection differs only by the one message written, which is not
  a \<^verbatim>\<open>SendFile\<close>: its state and its transfer are unchanged.
\<close>

theorem upload_refused:
  assumes peer: "p_peer p \<noteq> None"
  shows
    "(uploadSlotAvail c \<le> 0 \<longrightarrow>
        newUpload ev c ua pa p q s l z =
          Inr (False,
               connWrite p
                 (if protoIsAdc c
                  then msgAdcCStatus adcStatusWarning adcCodeSlotsFull ''Slots full''
                  else msgNmdcMaxedOut),
               c))
   \<and> (0 < uploadSlotAvail c \<and> q \<noteq> ''file files.xml.bz2'' \<and> 9 \<le> length q
        \<and> TigerHashFromBase32 ev (drop 9 q) = Inr t
        \<and> (\<forall>f \<in> set (concat (map allFiles (shareTree c))). tth f \<noteq> t) \<longrightarrow>
        newUpload ev c ua pa p q s l z =
          Inr (False,
               connWrite p
                 (if protoIsAdc c
                  then msgAdcCStatus adcStatusWarning adcCodeFileNotAvailable
                         ''File Not Available''
                  else msgNmdcError ''File Not Available''),
               c))
   \<and> (\<forall>m. p_state (connWrite p m) = p_state p
          \<and> p_transfer (connWrite p m) = p_transfer p
          \<and> (\<forall>pr. p_conn p = Some pr \<longrightarrow>
                p_conn (connWrite p m) = Some (pr\<lparr>written := written pr @ [m]\<rparr>)))"
proof -
  let ?u = "\<lparr>u_terminateRequested = False, u_state = ''processing'', u_pconn = pa,
            u_reader = None, u_readerClosed = False,
            u_isCompressed = (PeerDisableCompression c = False \<and> z = True),
            u_query = q, u_start = s, u_length = 0, u_offset = 0\<rparr>"
  have A: "uploadSlotAvail c \<le> 0 \<longrightarrow>
        newUpload ev c ua pa p q s l z =
          Inr (False,
               connWrite p
                 (if protoIsAdc c
                  then msgAdcCStatus adcStatusWarning adcCodeSlotsFull ''Slots full''
                  else msgNmdcMaxedOut),
               c)"
  proof
    assume "uploadSlotAvail c \<le> 0"
    then have "newUpload_open ev c ?u l = Inl errorNoSlots"
      by (simp add: newUpload_open_NoSlots)
    from newUpload_Inl_reply [OF peer this] show "newUpload ev c ua pa p q s l z =
          Inr (False,
               connWrite p
                 (if protoIsAdc c
                  then msgAdcCStatus adcStatusWarning adcCodeSlotsFull ''Slots full''
                  else msgNmdcMaxedOut),
               c)"
      by simp
  qed
  have B: "0 < uploadSlotAvail c \<and> q \<noteq> ''file files.xml.bz2'' \<and> 9 \<le> length q
        \<and> TigerHashFromBase32 ev (drop 9 q) = Inr t
        \<and> (\<forall>f \<in> set (concat (map allFiles (shareTree c))). tth f \<noteq> t) \<longrightarrow>
        newUpload ev c ua pa p q s l z =
          Inr (False,
               connWrite p
                 (if protoIsAdc c
                  then msgAdcCStatus adcStatusWarning adcCodeFileNotAvailable
                         ''File Not Available''
                  else msgNmdcError ''File Not Available''),
               c)"
  proof
    assume h: "0 < uploadSlotAvail c \<and> q \<noteq> ''file files.xml.bz2'' \<and> 9 \<le> length q
        \<and> TigerHashFromBase32 ev (drop 9 q) = Inr t
        \<and> (\<forall>f \<in> set (concat (map allFiles (shareTree c))). tth f \<noteq> t)"
    then have "scanDirs t (shareTree c) = None"
      using scan_None(2) [of t "shareTree c"] by blast
    with h have "newUpload_open ev c ?u l = Inl (Errorf ''file does not exists'')"
      by (simp add: newUpload_open_def)
    from newUpload_Inl_reply [OF peer this] show "newUpload ev c ua pa p q s l z =
          Inr (False,
               connWrite p
                 (if protoIsAdc c
                  then msgAdcCStatus adcStatusWarning adcCodeFileNotAvailable
                         ''File Not Available''
                  else msgNmdcError ''File Not Available''),
               c)"
      by simp
  qed
  have C: "\<forall>m. p_state (connWrite p m) = p_state p
          \<and> p_transfer (connWrite p m) = p_transfer p
          \<and> (\<forall>pr. p_conn p = Some pr \<longrightarrow>
                p_conn (connWrite p m) = Some (pr\<lparr>written := written pr @ [m]\<rparr>))"
    by (simp add: connWrite_def split: option.splits)
  show ?thesis
    by (intro conjI, rule A, rule B, rule C)
qed


text \<open>
  An NMDC client without a free upload slot answers \<^verbatim>\<open>MaxedOut\<close>; the client that shares
  one file answers the request for another TTH with ``File Not Available''.
\<close>

theorem upload_refused_witness:
  "newUpload ex_env (ex_client\<lparr>uploadSlotAvail := 0\<rparr>) 20 1 ex_conn_upload
      ''file TTH/BEEQS'' 0 (- 1) False =
     Inr (False, connWrite ex_conn_upload msgNmdcMaxedOut, ex_client\<lparr>uploadSlotAvail := 0\<rparr>)
   \<and> newUpload ex_env ex_client_share 20 1 ex_conn_upload ''file TTH/G4DQO'' 0 (- 1) False =
     Inr (False, connWrite ex_conn_upload (msgNmdcError ''File Not Available''), ex_client_share)
   \<and> p_conn (connWrite ex_conn_upload (msgNmdcError ''File Not Available'')) =
       Some (ex_protocol\<lparr>written := [msgNmdcError ''File Not Available'']\<rparr>)"
proof -
  have p: "p_peer ex_conn_upload \<noteq> None"
    by (simp add: ex_conn_upload_def)
  have a: "uploadSlotAvail (ex_client\<lparr>uploadSlotAvail := 0\<rparr>) \<le> 0
      \<and> protoIsAdc (ex_client\<lparr>uploadSlotAvail := 0\<rparr>) = False"
    by (simp add: ex_client_def)
  have b: "0 < uploadSlotAvail ex_client_share \<and> ''file TTH/G4DQO'' \<noteq> ''file files.xml.bz2''
      \<and> 9 \<le> length ''file TTH/G4DQO''
      \<and> TigerHashFromBase32 ex_env (drop 9 ''file TTH/G4DQO'') = Inr [7, 7, 7]
      \<and> (\<forall>f \<in> set (concat (map allFiles (shareTree ex_client_share))). tth f \<noteq> [7, 7, 7])
      \<and> protoIsAdc ex_client_share = False"
    by (simp add: ex_client_share_def ex_client_def ex_share_def ex_env_def)
  have c: "p_conn ex_conn_upload = Some ex_protocol \<and> written ex_protocol = []"
    by (simp add: ex_conn_upload_def ex_conn_def ex_protocol_def)
  from a upload_refused [OF p, where c = "ex_client\<lparr>uploadSlotAvail := 0\<rparr>" and ev = ex_env
      and ua = 20 and pa = 1 and q = "''file TTH/BEEQS''" and s = 0 and l = "- 1" and z = False,
      THEN conjunct1]
  have x: "newUpload ex_env (ex_client\<lparr>uploadSlotAvail := 0\<rparr>) 20 1 ex_conn_upload
      ''file TTH/BEEQS'' 0 (- 1) False =
     Inr (False, connWrite ex_conn_upload msgNmdcMaxedOut, ex_client\<lparr>uploadSlotAvail := 0\<rparr>)"
    by simp
  from b upload_refused [OF p, where c = ex_client_share and ev = ex_env
      and ua = 20 and pa = 1 and q = "''file TTH/G4DQO''" and s = 0 and l = "- 1" and z = False
      and t = "[7, 7, 7]", THEN conjunct2, THEN conjunct1]
  have y: "newUpload ex_env ex_client_share 20 1 ex_conn_upload ''file TTH/G4DQO'' 0 (- 1) False =
     Inr (False, connWrite ex_conn_upload (msgNmdcError ''File Not Available''), ex_client_share)"
    by simp
  from c upload_refused [OF p, where c = ex_client_share and ev = ex_env
      and ua = 20 and pa = 1 and q = "''file TTH/G4DQO''" and s = 0 and l = "- 1" and z = False
      and t = "[7, 7, 7]", THEN conjunct2, THEN conjunct2, THEN spec,
      of "msgNmdcError ''File Not Available''"]
  have z: "p_conn (connWrite ex_conn_upload (msgNmdcError ''File Not Available'')) =
       Some (ex_protocol\<lparr>written := [msgNmdcError ''File Not Available'']\<rparr>)"
    by simp
  from x y z show ?thesis by blast
qed

lemma newUpload_open_causes:
  fixes u :: upload
  assumes slots: "0 < uploadSlotAvail c"
  shows "u_query u = ''file files.xml.bz2'' \<and> (u_start u \<noteq> 0 \<or> l \<noteq> - 1) \<Longrightarrow>
           newUpload_open ev c u l = Inl (Errorf ''filelist seeking is not supported'')"
    and "u_query u \<noteq> ''file files.xml.bz2'' \<and> 9 \<le> length (u_query u)
           \<and> TigerHashFromBase32 ev (drop 9 (u_query u)) = Inl e \<Longrightarrow>
           newUpload_open ev c u l = Inl (OsError e)"
    and "u_query u \<noteq> ''file files.xml.bz2'' \<and> 9 \<le> length (u_query u)
           \<and> TigerHashFromBase32 ev (drop 9 (u_query u)) = Inr t
           \<and> scanDirs t (shareTree c) = None \<Longrightarrow>
           newUpload_open ev c u l = Inl (Errorf ''file does not exists'')"
    and "9 \<le> length (u_query u) \<and> take 4 (u_query u) = ''tthl''
           \<and> TigerHashFromBase32 ev (drop 9 (u_query u)) = Inr t
           \<and> scanDirs t (shareTree c) = Some f \<and> (u_start u \<noteq> 0 \<or> l \<noteq> - 1) \<Longrightarrow>
           newUpload_open ev c u l = Inl (Errorf ''tthl seeking is not supported'')"
    and "u_query u \<noteq> ''file files.xml.bz2'' \<and> 9 \<le> length (u_query u)
           \<and> take 4 (u_query u) \<noteq> ''tthl''
           \<and> TigerHashFromBase32 ev (drop 9 (u_query u)) = Inr t
           \<and> scanDirs t (shareTree c) = Some f
           \<and> (Open_err ev (realPath f) \<noteq> None \<or> Seek_err ev (realPath f) (u_start u) \<noteq> None)
           \<Longrightarrow> \<exists>e. newUpload_open ev c u l = Inl (OsError e)"
    and "u_query u \<noteq> ''file files.xml.bz2'' \<and> 9 \<le> length (u_query u)
           \<and> take 4 (u_query u) \<noteq> ''tthl''
           \<and> TigerHashFromBase32 ev (drop 9 (u_query u)) = Inr t
           \<and> scanDirs t (shareTree c) = Some f
           \<and> Open_err ev (realPath f) = None \<and> Seek_err ev (realPath f) (u_start u) = None
           \<and> l \<noteq> - 1 \<and> unat (u_start u) \<le> unat (sizeBytes f)
           \<and> unat (sizeBytes f) - unat (u_start u) < unat l \<Longrightarrow>
           newUpload_open ev c u l = Inl (Errorf ''length too big'')"
proof -
  show "u_query u = ''file files.xml.bz2'' \<and> (u_start u \<noteq> 0 \<or> l \<noteq> - 1) \<Longrightarrow>
           newUpload_open ev c u l = Inl (Errorf ''filelist seeking is not supported'')"
    using slots by (auto simp: newUpload_open_def)
  show "u_query u \<noteq> ''file files.xml.bz2'' \<and> 9 \<le> length (u_query u)
           \<and> TigerHashFromBase32 ev (drop 9 (u_query u)) = Inl e \<Longrightarrow>
           newUpload_open ev c u l = Inl (OsError e)"
    using slots by (auto simp: newUpload_open_def)
  show "u_query u \<noteq> ''file files.xml.bz2'' \<and> 9 \<le> length (u_query u)
           \<and> TigerHashFromBase32 ev (drop 9 (u_query u)) = Inr t
           \<and> scanDirs t (shareTree c) = None \<Longrightarrow>
           newUpload_open ev c u l = Inl (Errorf ''file does not exists'')"
    using slots by (auto simp: newUpload_open_def)
  show "9 \<le> length (u_query u) \<and> take 4 (u_query u) = ''tthl''
           \<and> TigerHashFromBase32 ev (drop 9 (u_query u)) = Inr t
           \<and> scanDirs t (shareTree c) = Some f \<and> (u_start u \<noteq> 0 \<or> l \<noteq> - 1) \<Longrightarrow>
           newUpload_open ev c u l = Inl (Errorf ''tthl seeking is not supported'')"
    using slots by (auto simp: newUpload_open_def)
  show "u_query u \<noteq> ''file files.xml.bz2'' \<and> 9 \<le> length (u_query u)
           \<and> take 4 (u_query u) \<noteq> ''tthl''
           \<and> TigerHashFromBase32 ev (drop 9 (u_query u)) = Inr t
           \<and> scanDirs t (shareTree c) = Some f
           \<and> (Open_err ev (realPath f) \<noteq> None \<or> Seek_err ev (realPath f) (u_start u) \<noteq> None)
           \<Longrightarrow> \<exists>e. newUpload_open ev c u l = Inl (OsError e)"
    using slots by (auto simp: newUpload_open_def split: option.splits)
  show "u_query u \<noteq> ''file files.xml.bz2'' \<and> 9 \<le> length (u_query u)
           \<and> take 4 (u_query u) \<noteq> ''tthl''
           \<and> TigerHashFromBase32 ev (drop 9 (u_query u)) = Inr t
           \<and> scanDirs t (shareTree c) = Some f
           \<and> Open_err ev (realPath f) = None \<and> Seek_err ev (realPath f) (u_start u) = None
           \<and> l \<noteq> - 1 \<and> unat (u_start u) \<le> unat (sizeBytes f)
           \<and> unat (sizeBytes f) - unat (u_start u) < unat l \<Longrightarrow>
           newUpload_open ev c u l = Inl (Errorf ''length too big'')"
  proof -
    assume h: "u_query u \<noteq> ''file files.xml.bz2'' \<and> 9 \<le> length (u_query u)
           \<and> take 4 (u_query u) \<noteq> ''tthl''
           \<and> TigerHashFromBase32 ev (drop 9 (u_query u)) = Inr t
           \<and> scanDirs t (shareTree c) = Some f
           \<and> Open_err ev (realPath f) = None \<and> Seek_err ev (realPath f) (u_start u) = None
           \<and> l \<noteq> - 1 \<and> unat (u_start u) \<le> unat (sizeBytes f)
           \<and> unat (sizeBytes f) - unat (u_start u) < unat l"
    then have "u_start u \<le> sizeBytes f" by (simp add: word_le_nat_alt)
    then have "unat (sizeBytes f - u_start u) = unat (sizeBytes f) - unat (u_start u)"
      by (rule unat_sub)
    with h have "sizeBytes f - u_start u < l" by (simp add: word_less_nat_alt)
    with h slots show ?thesis
      by (simp add: newUpload_open_def Let_def)
  qed
qed


lemma newUpload_fna:
  assumes "p_peer p \<noteq> None"
    and "newUpload_open ev c
           \<lparr>u_terminateRequested = False, u_state = ''processing'', u_pconn = pa,
            u_reader = None, u_readerClosed = False,
            u_isCompressed = (PeerDisableCompression c = False \<and> z = True),
            u_query = q, u_start = s, u_length = 0, u_offset = 0\<rparr> l = Inl e"
    and "e = Errorf m \<or> e = OsError m"
  shows "newUpload ev c ua pa p q s l z =
     Inr (False,
          connWrite p
            (if protoIsAdc c
             then msgAdcCStatus adcStatusWarning adcCodeFileNotAvailable ''File Not Available''
             else msgNmdcError ''File Not Available''),
          c)"
  using assms by (auto simp: newUpload_def Let_def)

text \<open>
  With an upload slot available, whenever \<^verbatim>\<open>newUpload\<close> returns \<^verbatim>\<open>false\<close> it has left the
  client as it was and has written exactly the reply ``File Not Available'' of the
  protocol in use. Each of these causes leads there: a request for the file list with a
  start or a length, a TTH that is not valid base-32, a TTH that no shared file has, a
  request for the leaves of a shared file with a start or a length, an error of opening
  the file or of seeking in it, and, for a start within the file, a length greater than
  what the file holds from the start on.
\<close>

lemma newUpload_failure_reply:
  assumes peer: "p_peer p \<noteq> None" and slots: "0 < uploadSlotAvail c"
  shows
    "(\<forall>p' c'. newUpload ev c ua pa p q s l z = Inr (False, p', c') \<longrightarrow>
        c' = c \<and>
        p' = connWrite p
               (if protoIsAdc c
                then msgAdcCStatus adcStatusWarning adcCodeFileNotAvailable ''File Not Available''
                else msgNmdcError ''File Not Available''))
   \<and> ((q = ''file files.xml.bz2'' \<and> (s \<noteq> 0 \<or> l \<noteq> - 1)
        \<or> q \<noteq> ''file files.xml.bz2'' \<and> 9 \<le> length q
            \<and> (\<exists>e. TigerHashFromBase32 ev (drop 9 q) = Inl e)
        \<or> q \<noteq> ''file files.xml.bz2'' \<and> 9 \<le> length q
            \<and> (\<exists>t. TigerHashFromBase32 ev (drop 9 q) = Inr t
                  \<and> (\<forall>f \<in> set (concat (map allFiles (shareTree c))). tth f \<noteq> t))
        \<or> 9 \<le> length q \<and> take 4 q = ''tthl''
            \<and> (\<exists>t f. TigerHashFromBase32 ev (drop 9 q) = Inr t
                  \<and> scanDirs t (shareTree c) = Some f) \<and> (s \<noteq> 0 \<or> l \<noteq> - 1)
        \<or> q \<noteq> ''file files.xml.bz2'' \<and> 9 \<le> length q \<and> take 4 q \<noteq> ''tthl''
            \<and> (\<exists>t f. TigerHashFromBase32 ev (drop 9 q) = Inr t
                  \<and> scanDirs t (shareTree c) = Some f
                  \<and> (Open_err ev (realPath f) \<noteq> None \<or> Seek_err ev (realPath f) s \<noteq> None
                      \<or> l \<noteq> - 1 \<and> unat s \<le> unat (sizeBytes f)
                          \<and> unat (sizeBytes f) - unat s < unat l)))
       \<longrightarrow>
        newUpload ev c ua pa p q s l z =
          Inr (False,
               connWrite p
                 (if protoIsAdc c
                  then msgAdcCStatus adcStatusWarning adcCodeFileNotAvailable
                         ''File Not Available''
                  else msgNmdcError ''File Not Available''),
               c))"
proof -
  let ?u = "\<lparr>u_terminateRequested = False, u_state = ''processing'', u_pconn = pa,
            u_reader = None, u_readerClosed = False,
            u_isCompressed = (PeerDisableCompression c = False \<and> z = True),
            u_query = q, u_start = s, u_length = 0, u_offset = 0\<rparr>"
  let ?r = "Inr (False,
               connWrite p
                 (if protoIsAdc c
                  then msgAdcCStatus adcStatusWarning adcCodeFileNotAvailable
                         ''File Not Available''
                  else msgNmdcError ''File Not Available''),
               c)"
  have A: "\<forall>p' c'. newUpload ev c ua pa p q s l z = Inr (False, p', c') \<longrightarrow>
        c' = c \<and>
        p' = connWrite p
               (if protoIsAdc c
                then msgAdcCStatus adcStatusWarning adcCodeFileNotAvailable ''File Not Available''
                else msgNmdcError ''File Not Available'')"
    using newUpload_failed [of ev c ua pa p q s l z] slots by auto
  have E: "\<And>e m. newUpload_open ev c ?u l = Inl e \<Longrightarrow> e = Errorf m \<or> e = OsError m \<Longrightarrow>
      newUpload ev c ua pa p q s l z = ?r"
    using newUpload_fna [OF peer] by blast
  have 1: "q = ''file files.xml.bz2'' \<and> (s \<noteq> 0 \<or> l \<noteq> - 1) \<Longrightarrow>
      newUpload ev c ua pa p q s l z = ?r"
    using newUpload_open_causes(1) [OF slots, of ?u l ev] E by simp
  have 2: "\<And>e. q \<noteq> ''file files.xml.bz2'' \<and> 9 \<le> length q
        \<and> TigerHashFromBase32 ev (drop 9 q) = Inl e \<Longrightarrow> newUpload ev c ua pa p q s l z = ?r"
    using newUpload_open_causes(2) [OF slots, of ?u ev _ l] E by simp
  have 3: "\<And>t. q \<noteq> ''file files.xml.bz2'' \<and> 9 \<le> length q
        \<and> TigerHashFromBase32 ev (drop 9 q) = Inr t
        \<and> (\<forall>f \<in> set (concat (map allFiles (shareTree c))). tth f \<noteq> t) \<Longrightarrow>
      newUpload ev c ua pa p q s l z = ?r"
  proof -
    fix t
    assume h: "q \<noteq> ''file files.xml.bz2'' \<and> 9 \<le> length q
        \<and> TigerHashFromBase32 ev (drop 9 q) = Inr t
        \<and> (\<forall>f \<in> set (concat (map allFiles (shareTree c))). tth f \<noteq> t)"
    then have "scanDirs t (shareTree c) = None"
      using scan_None(2) [of t "shareTree c"] by blast
    with h newUpload_open_causes(3) [OF slots, of ?u ev t l] E
    show "newUpload ev c ua pa p q s l z = ?r" by simp
  qed
  have 4: "\<And>t f. 9 \<le> length q \<and> take 4 q = ''tthl''
        \<and> TigerHashFromBase32 ev (drop 9 q) = Inr t
        \<and> scanDirs t (shareTree c) = Some f \<and> (s \<noteq> 0 \<or> l \<noteq> - 1) \<Longrightarrow>
      newUpload ev c ua pa p q s l z = ?r"
    using newUpload_open_causes(4) [OF slots, of ?u ev _ _ l] E by simp
  have 5: "\<And>t f. q \<noteq> ''file files.xml.bz2'' \<and> 9 \<le> length q \<and> take 4 q \<noteq> ''tthl''
        \<and> TigerHashFromBase32 ev (drop 9 q) = Inr t
        \<and> scanDirs t (shareTree c) = Some f
        \<and> (Open_err ev (realPath f) \<noteq> None \<or> Seek_err ev (realPath f) s \<noteq> None) \<Longrightarrow>
      newUpload ev c ua pa p q s l z = ?r"
  proof -
    fix t f
    assume "q \<noteq> ''file files.xml.bz2'' \<and> 9 \<le> length q \<and> take 4 q \<noteq> ''tthl''
        \<and> TigerHashFromBase32 ev (drop 9 q) = Inr t
        \<and> scanDirs t (shareTree c) = Some f
        \<and> (Open_err ev (realPath f) \<noteq> None \<or> Seek_err ev (realPath f) s \<noteq> None)"
    with newUpload_open_causes(5) [OF slots, of ?u ev t f l]
    obtain e where "newUpload_open ev c ?u l = Inl (OsError e)" by auto
    with E show "newUpload ev c ua pa p q s l z = ?r" by blast
  qed
  have 6: "\<And>t f. q \<noteq> ''file files.xml.bz2'' \<and> 9 \<le> length q \<and> take 4 q \<noteq> ''tthl''
        \<and> TigerHashFromBase32 ev (drop 9 q) = Inr t
        \<and> scanDirs t (shareTree c) = Some f
        \<and> Open_err ev (realPath f) = None \<and> Seek_err ev (realPath f) s = None
        \<and> l \<noteq> - 1 \<and> unat s \<le> unat (sizeBytes f)
        \<and> unat (sizeBytes f) - unat s < unat l \<Longrightarrow>
      newUpload ev c ua pa p q s l z = ?r"
    using newUpload_open_causes(6) [OF slots, of ?u ev _ _ l] E by simp
  have B: "(q = ''file files.xml.bz2'' \<and> (s \<noteq> 0 \<or> l \<noteq> - 1)
        \<or> q \<noteq> ''file files.xml.bz2'' \<and> 9 \<le> length q
            \<and> (\<exists>e. TigerHashFromBase32 ev (drop 9 q) = Inl e)
        \<or> q \<noteq> ''file files.xml.bz2'' \<and> 9 \<le> length q
            \<and> (\<exists>t. TigerHashFromBase32 ev (drop 9 q) = Inr t
                  \<and> (\<forall>f \<in> set (concat (map allFiles (shareTree c))). tth f \<noteq> t))
        \<or> 9 \<le> length q \<and> take 4 q = ''tthl''
            \<and> (\<exists>t f. TigerHashFromBase32 ev (drop 9 q) = Inr t
                  \<and> scanDirs t (shareTree c) = Some f) \<and> (s \<noteq> 0 \<or> l \<noteq> - 1)
        \<or> q \<noteq> ''file files.xml.bz2'' \<and> 9 \<le> length q \<and> take 4 q \<noteq> ''tthl''
            \<and> (\<exists>t f. TigerHashFromBase32 ev (drop 9 q) = Inr t
                  \<and> scanDirs t (shareTree c) = Some f
                  \<and> (Open_err ev (realPath f) \<noteq> None \<or> Seek_err ev (realPath f) s \<noteq> None
                      \<or> l \<noteq> - 1 \<and> unat s \<le> unat (sizeBytes f)
                          \<and> unat (sizeBytes f) - unat s < unat l)))
       \<longrightarrow> newUpload ev c ua pa p q s l z = ?r"
    using 1 2 3 4 5 6 by blast
  show ?thesis
    by (intro conjI, rule A, rule B)
qed


text \<open>
  Claim C10 says that every failure to start an upload other than slot exhaustion is
  answered with ``File Not Available'', a requested length greater than the file's
  remaining bytes among them. \<^verbatim>\<open>newUpload\<close> computes the remaining bytes as
  \<^verbatim>\<open>sfile.size - u.start\<close> in \<^verbatim>\<open>uint64\<close>, so its check \<^verbatim>\<open>uint64(reqLength) > maxLength\<close>
  fires for a start within the file and is lost for a start beyond its end. The client
  shares one file of ten bytes. Seven bytes from offset 4 are refused with ``File Not
  Available''. For five bytes from offset 11 the difference wraps to \<open>2^64 - 1\<close>, the
  request passes the check, and \<^verbatim>\<open>newUpload\<close> returns \<^verbatim>\<open>true\<close>: it has written
  \<^verbatim>\<open>SendFile\<close> with start 11 and length 5, registered the upload, taken an upload slot
  and delegated the connection to the upload.
\<close>

theorem newUpload_start_beyond_size:
  "scanDirs [9, 9, 9] (shareTree ex_client_share) =
     Some \<lparr>tth = [9, 9, 9], realPath = ''/share/a.txt'', sizeBytes = 10, tthl = [[9, 9, 9]]\<rparr>
   \<and> newUpload ex_env ex_client_share 20 1 ex_conn_upload ''file TTH/BEEQS'' 4 7 False =
     Inr (False, connWrite ex_conn_upload (msgNmdcError ''File Not Available''), ex_client_share)
   \<and> (10 :: uint64) - 11 = 18446744073709551615
   \<and> newUpload ex_env ex_client_share 20 1 ex_conn_upload ''file TTH/BEEQS'' 11 5 False =
     Inr (True,
          (connWrite ex_conn_upload (msgNmdcSendFile ''file TTH/BEEQS'' 11 5 False))
            \<lparr>p_state := ''delegated_upload'', p_transfer := Some (UploadRef 20)\<rparr>,
          ex_client_share
            \<lparr>transfers := insert (UploadRef 20) (transfers ex_client_share),
             uls := (uls ex_client_share)
               (20 \<mapsto> \<lparr>u_terminateRequested = False, u_state = ''processing'', u_pconn = 1,
                        u_reader = Some (FileReader ''/share/a.txt'' 11),
                        u_readerClosed = False, u_isCompressed = False,
                        u_query = ''file TTH/BEEQS'', u_start = 11, u_length = 5,
                        u_offset = 0\<rparr>),
             uploadSlotAvail := uploadSlotAvail ex_client_share - 1\<rparr>)"
  by (simp add: newUpload_def newUpload_open_def connWrite_def ex_client_share_def ex_client_def
      ex_share_def ex_env_def ex_conn_upload_def ex_conn_def ex_protocol_def ex_peer_def Let_def)


subsection \<open>The reply to a download request\<close>








subsection \<open>Binary chunks of a download\<close>

lemma unat_newLength:
  fixes a :: uint64
  assumes "unat a + n < 2 ^ 64"
  shows "unat (a + of_nat n) = unat a + n"
proof -
  from assms have n: "n < 2 ^ 64" by simp
  then have "unat (of_nat n :: uint64) = n"
    by (simp add: unat_of_nat)
  with assms show ?thesis
    by (simp add: unat_add_lem [THEN iffD1])
qed

lemma writer_Write_fields:
  assumes "writer_Write wr fs d w bs = (e, d1, fs1)"
  shows "d_offset d1 = d_offset d \<and> d_length d1 = d_length d \<and> d_conf d1 = d_conf d
    \<and> d_writer d1 =
        Some (w\<lparr>w_data := w_data w @ take (case wr of None \<Rightarrow> length bs | Some k \<Rightarrow> k) bs\<rparr>)
    \<and> e = (case wr of None \<Rightarrow> None | Some k \<Rightarrow> Some (OsError ''write''))"
  using assms
  by (auto simp: writer_Write_def Let_def min_def split: sink.splits option.splits)

lemma finish_file_fields:
  assumes "finish_file ev fs d = (e, d', fs')"
  shows "d' = d \<and> e \<noteq> None"
proof (cases "validate ev fs d")
  case (Some x)
  with assms show ?thesis by (cases e) (auto simp: finish_file_def)
next
  case None
  with assms show ?thesis
    by (auto simp: finish_file_def split: option.splits prod.splits if_splits)
qed

lemma finish_filelist_fields:
  assumes "finish_filelist ev fs d = (e, d', fs')"
  shows "d_offset d' = d_offset d \<and> d_length d' = d_length d \<and> d_writer d' = d_writer d
    \<and> e \<noteq> None"
  using assms
  by (auto simp: finish_filelist_def Let_def split: option.splits prod.splits if_splits)

lemma binary_too_long:
  assumes "unat (d_offset d) + length bs < 2 ^ 64"
    and "unat (d_length d) < unat (d_offset d) + length bs"
  shows "handleDownload_binary ev wr fs p d bs =
           (Some (ErrBinaryTooLong (d_offset d + of_nat (length bs))), d, p, fs)"
proof -
  from assms have "d_length d < d_offset d + of_nat (length bs)"
    by (simp add: word_less_nat_alt unat_newLength)
  then show ?thesis by (simp add: handleDownload_binary_def Let_def)
qed

lemma binary_fits:
  assumes fit: "unat (d_offset d) + length bs \<le> unat (d_length d)"
    and w: "d_writer d = Some w"
    and res: "handleDownload_binary ev wr fs p d bs = (err, d', p', fs')"
  shows "d_length d' = d_length d
    \<and> (\<exists>w'. d_writer d' = Some w'
          \<and> w_data w' = w_data w @ take (case wr of None \<Rightarrow> length bs | Some k \<Rightarrow> k) bs
          \<and> (wr \<noteq> None \<longrightarrow> w_closed w'))
    \<and> d_offset d' = (if wr = None then d_offset d + of_nat (length bs) else d_offset d)
    \<and> (wr = None \<longrightarrow> unat (d_offset d') = unat (d_offset d) + length bs)
    \<and> (wr \<noteq> None \<longrightarrow> err = Some (OsError ''write''))
    \<and> (wr = None \<and> unat (d_offset d) + length bs < unat (d_length d) \<longrightarrow> err = None)
    \<and> (wr = None \<and> unat (d_offset d) + length bs = unat (d_length d) \<longrightarrow> err \<noteq> None)"
proof -
  have b: "unat (d_length d) < 2 ^ 64"
    using unsigned_less [of "d_length d", where 'a = nat] by simp
  with fit have nw: "unat (d_offset d) + length bs < 2 ^ 64" by linarith
  then have u: "unat (d_offset d + of_nat (length bs)) = unat (d_offset d) + length bs"
    by (rule unat_newLength)
  with fit have g: "\<not> d_offset d + of_nat (length bs) > d_length d"
    by (simp add: word_less_nat_alt)
  have eq: "(d_offset d + of_nat (length bs) = d_length d)
      = (unat (d_offset d) + length bs = unat (d_length d))"
    using u by (metis word_unat_eq_iff)
  obtain e1 d1 fs1 where ww: "writer_Write wr fs d w bs = (e1, d1, fs1)"
    by (cases "writer_Write wr fs d w bs") auto
  note f = writer_Write_fields [OF ww]
  show ?thesis
  proof (cases wr)
    case (Some k)
    with f have "e1 = Some (OsError ''write'')" by simp
    with res g w ww have "err = Some (OsError ''write'') \<and> d' = writer_Close d1"
      by (simp add: handleDownload_binary_def Let_def)
    with f Some show ?thesis by (simp add: writer_Close_def)
  next
    case None
    with f have e1: "e1 = None" by simp
    let ?d2 = "d1\<lparr>d_offset := d_offset d + of_nat (length bs)\<rparr>"
    show ?thesis
    proof (cases "unat (d_offset d) + length bs = unat (d_length d)")
      case False
      with eq f have "d_offset ?d2 \<noteq> d_length ?d2" by simp
      with res g w ww e1 have "err = None \<and> d' = ?d2"
        by (simp add: handleDownload_binary_def Let_def)
      with f None False fit u show ?thesis by simp
    next
      case True
      with eq f have t: "d_offset ?d2 = d_length ?d2" by simp
      define d3 where "d3 = writer_Close ?d2"
      define r where "r = (if isFilelist (d_conf d3) then finish_filelist ev fs1 d3
                           else finish_file ev fs1 d3)"
      obtain e4 d4 fs4 where fin: "r = (e4, d4, fs4)"
        by (cases r) auto
      have "handleDownload_binary ev wr fs p d bs =
          (case r of (err, d4, fs2) \<Rightarrow> (err, d4, SetReadBinary False p, fs2))"
        using g w ww e1 t by (simp add: handleDownload_binary_def Let_def d3_def r_def)
      with res fin have r: "err = e4 \<and> d' = d4" by simp
      from fin have k: "d_offset d4 = d_offset d3 \<and> d_length d4 = d_length d3
          \<and> d_writer d4 = d_writer d3 \<and> e4 \<noteq> None"
        unfolding r_def
        using finish_filelist_fields [of ev fs1 d3 e4 d4 fs4]
          finish_file_fields [of ev fs1 d3 e4 d4 fs4]
        by (auto split: if_splits)
      have "d_offset d3 = d_offset ?d2 \<and> d_length d3 = d_length ?d2
          \<and> d_writer d3 = map_option (\<lambda>w. w\<lparr>w_closed := True\<rparr>) (d_writer ?d2)"
        by (simp add: d3_def writer_Close_def)
      with k have k: "d_offset d4 = d_offset ?d2 \<and> d_length d4 = d_length ?d2
          \<and> d_writer d4 = map_option (\<lambda>w. w\<lparr>w_closed := True\<rparr>) (d_writer ?d2)
          \<and> e4 \<noteq> None"
        by simp
      with r f None True u show ?thesis by simp
    qed
  qed
qed

lemma receive_bound:
  assumes "d_writer d = Some w"
    and "length (w_data w) = unat (d_offset d)"
    and "unat (d_offset d) \<le> unat (d_length d)"
    and "\<forall>(wr, bs) \<in> set chunks. unat (d_length d) + length bs < 2 ^ 64"
    and "receive ev fs p d chunks = (err, d', p', fs')"
  shows "d_length d' = d_length d
    \<and> (\<exists>w'. d_writer d' = Some w' \<and> length (w_data w') \<le> unat (d_length d))"
  using assms
proof (induction chunks arbitrary: d w fs p)
  case Nil
  then show ?case by simp
next
  case (Cons ch chunks)
  obtain wr bs where ch: "ch = (wr, bs)" by (cases ch) auto
  obtain e1 d1 p1 fs1 where step: "handleDownload_binary ev wr fs p d bs = (e1, d1, p1, fs1)"
    by (cases "handleDownload_binary ev wr fs p d bs") auto
  from Cons.prems(4) ch have nw: "unat (d_length d) + length bs < 2 ^ 64" by simp
  show ?case
  proof (cases "unat (d_offset d) + length bs \<le> unat (d_length d)")
    case False
    with nw Cons.prems(3) have "handleDownload_binary ev wr fs p d bs =
        (Some (ErrBinaryTooLong (d_offset d + of_nat (length bs))), d, p, fs)"
      by (intro binary_too_long) simp_all
    with Cons.prems(5) ch have "d' = d" by simp
    with Cons.prems(1,2,3) show ?thesis by simp
  next
    case True
    note f = binary_fits [OF True Cons.prems(1) step]
    then obtain w1 where w1: "d_writer d1 = Some w1"
      "w_data w1 = w_data w @ take (case wr of None \<Rightarrow> length bs | Some k \<Rightarrow> k) bs"
      by blast
    have len: "length (w_data w1) \<le> unat (d_length d)"
      using w1(2) Cons.prems(2) True by (simp split: option.splits)
    show ?thesis
    proof (cases e1)
      case (Some e)
      with Cons.prems(5) ch step have "d' = d1" by simp
      moreover from f have "d_length d1 = d_length d" by blast
      ultimately show ?thesis using w1 len by simp
    next
      case None
      with f have wr: "wr = None" by auto
      with f have o: "unat (d_offset d1) = unat (d_offset d) + length bs" by blast
      from None Cons.prems(5) ch step
      have r: "receive ev fs1 p1 d1 chunks = (err, d', p', fs')" by simp
      have l: "length (w_data w1) = unat (d_offset d1)"
        using w1(2) wr o Cons.prems(2) by simp
      from f have dl: "d_length d1 = d_length d" by blast
      have b: "unat (d_offset d1) \<le> unat (d_length d1)"
        using o True dl by simp
      have q: "\<forall>(wr, bs) \<in> set chunks. unat (d_length d1) + length bs < 2 ^ 64"
        using Cons.prems(4) dl by simp
      from Cons.IH [OF w1(1) l b q r] dl show ?thesis by simp
    qed
  qed
qed

text \<open>
  Claim C5 says that a chunk that fits is written and advances the offset by its length.
  The download has room for five bytes and receives three; the writer fails before it
  takes a byte: the download fails with the writer's error, and the offset stays at 0.
\<close>

theorem binary_write_error_counterexample:
  "unat (d_offset ex_dl_ram) + length [1, 2, 3 :: byte] \<le> unat (d_length ex_dl_ram)
   \<and> fst (handleDownload_binary ex_env (Some 0) Map.empty ex_conn ex_dl_ram [1, 2, 3])
       = Some (OsError ''write'')
   \<and> d_offset (fst (snd (handleDownload_binary ex_env (Some 0) Map.empty ex_conn ex_dl_ram
        [1, 2, 3]))) = 0
   \<and> map_option w_data (d_writer (fst (snd (handleDownload_binary ex_env (Some 0) Map.empty
        ex_conn ex_dl_ram [1, 2, 3])))) = Some []"
  by (simp add: handleDownload_binary_def writer_Write_def writer_Close_def ex_dl_ram_def
      ex_dl_proc_def ex_dl_def Let_def)

text \<open>
  Claim C5, amended. For a chunk whose length added to the offset does not pass the range
  of 64 bits: if the offset plus the chunk's length exceeds the declared length, the
  download fails with ``binary content too long'' and nothing is written or changed.
  Otherwise the chunk is handed to the writer; when the writer takes it, it is written
  whole and the offset advances by exactly its length; when the writer fails, the writer
  is closed, the download fails with the writer's error and the offset stays. So, from a
  download whose writer holds as many bytes as its offset says, no sequence of chunks
  (each within the range of 64 bits when added to the declared length) makes the writer
  hold more bytes than the declared length.
\<close>

theorem binary_chunk_guard:
  "(unat (d_offset d) + length bs < 2 ^ 64 \<and> unat (d_length d) < unat (d_offset d) + length bs
      \<longrightarrow> handleDownload_binary ev wr fs p d bs =
            (Some (ErrBinaryTooLong (d_offset d + of_nat (length bs))), d, p, fs))
 \<and> (unat (d_offset d) + length bs \<le> unat (d_length d) \<and> d_writer d = Some w
      \<and> handleDownload_binary ev wr fs p d bs = (err, d', p', fs') \<longrightarrow>
      (wr = None \<longrightarrow>
         unat (d_offset d') = unat (d_offset d) + length bs
         \<and> (\<exists>w'. d_writer d' = Some w' \<and> w_data w' = w_data w @ bs))
      \<and> (\<forall>k. wr = Some k \<longrightarrow>
            err = Some (OsError ''write'') \<and> d_offset d' = d_offset d
            \<and> (\<exists>w'. d_writer d' = Some w' \<and> w_closed w'
                  \<and> w_data w' = w_data w @ take k bs)))
 \<and> (d_writer d = Some w \<and> length (w_data w) = unat (d_offset d)
      \<and> unat (d_offset d) \<le> unat (d_length d)
      \<and> (\<forall>(wr, bs) \<in> set chunks. unat (d_length d) + length bs < 2 ^ 64)
      \<and> receive ev fs p d chunks = (err, d', p', fs') \<longrightarrow>
      d_length d' = d_length d
      \<and> (\<exists>w'. d_writer d' = Some w' \<and> length (w_data w') \<le> unat (d_length d)))"
proof -
  have A: "unat (d_offset d) + length bs < 2 ^ 64
      \<and> unat (d_length d) < unat (d_offset d) + length bs
      \<longrightarrow> handleDownload_binary ev wr fs p d bs =
            (Some (ErrBinaryTooLong (d_offset d + of_nat (length bs))), d, p, fs)"
    using binary_too_long by blast
  have B: "unat (d_offset d) + length bs \<le> unat (d_length d) \<and> d_writer d = Some w
      \<and> handleDownload_binary ev wr fs p d bs = (err, d', p', fs') \<longrightarrow>
      (wr = None \<longrightarrow>
         unat (d_offset d') = unat (d_offset d) + length bs
         \<and> (\<exists>w'. d_writer d' = Some w' \<and> w_data w' = w_data w @ bs))
      \<and> (\<forall>k. wr = Some k \<longrightarrow>
            err = Some (OsError ''write'') \<and> d_offset d' = d_offset d
            \<and> (\<exists>w'. d_writer d' = Some w' \<and> w_closed w'
                  \<and> w_data w' = w_data w @ take k bs))"
  proof (rule impI)
    assume h: "unat (d_offset d) + length bs \<le> unat (d_length d) \<and> d_writer d = Some w
      \<and> handleDownload_binary ev wr fs p d bs = (err, d', p', fs')"
    then have f: "d_length d' = d_length d
      \<and> (\<exists>w'. d_writer d' = Some w'
          \<and> w_data w' = w_data w @ take (case wr of None \<Rightarrow> length bs | Some k \<Rightarrow> k) bs
          \<and> (wr \<noteq> None \<longrightarrow> w_closed w'))
      \<and> d_offset d' = (if wr = None then d_offset d + of_nat (length bs) else d_offset d)
      \<and> (wr = None \<longrightarrow> unat (d_offset d') = unat (d_offset d) + length bs)
      \<and> (wr \<noteq> None \<longrightarrow> err = Some (OsError ''write''))"
      using binary_fits [of d bs w ev wr fs p err d' p' fs'] by blast
    then show "(wr = None \<longrightarrow>
         unat (d_offset d') = unat (d_offset d) + length bs
         \<and> (\<exists>w'. d_writer d' = Some w' \<and> w_data w' = w_data w @ bs))
      \<and> (\<forall>k. wr = Some k \<longrightarrow>
            err = Some (OsError ''write'') \<and> d_offset d' = d_offset d
            \<and> (\<exists>w'. d_writer d' = Some w' \<and> w_closed w'
                  \<and> w_data w' = w_data w @ take k bs))"
      by auto
  qed
  have C: "d_writer d = Some w \<and> length (w_data w) = unat (d_offset d)
      \<and> unat (d_offset d) \<le> unat (d_length d)
      \<and> (\<forall>(wr, bs) \<in> set chunks. unat (d_length d) + length bs < 2 ^ 64)
      \<and> receive ev fs p d chunks = (err, d', p', fs') \<longrightarrow>
      d_length d' = d_length d
      \<and> (\<exists>w'. d_writer d' = Some w' \<and> length (w_data w') \<le> unat (d_length d))"
    using receive_bound [of d w chunks ev fs p err d' p' fs'] by blast
  show ?thesis
    by (intro conjI, rule A, rule B, rule C)
qed

text \<open>
  The download with room for five bytes refuses a chunk of six, takes a chunk of three,
  and after the chunks of three and of two bytes its writer holds no more than five.
\<close>

theorem binary_chunk_guard_witness:
  "handleDownload_binary ex_env None Map.empty ex_conn ex_dl_ram [1, 2, 3, 4, 5, 6] =
     (Some (ErrBinaryTooLong 6), ex_dl_ram, ex_conn, Map.empty)
   \<and> unat (d_offset (fst (snd (handleDownload_binary ex_env None Map.empty ex_conn ex_dl_ram
        [7, 7, 7])))) = 3
   \<and> (\<exists>w'. d_writer (fst (snd (handleDownload_binary ex_env None Map.empty ex_conn ex_dl_ram
        [7, 7, 7]))) = Some w' \<and> w_data w' = [7, 7, 7])
   \<and> (\<exists>w'. d_writer (fst (snd (receive ex_env Map.empty ex_conn ex_dl_ram
        [(None, [7, 7, 7]), (None, [1, 2])]))) = Some w' \<and> length (w_data w') \<le> 5)"
proof -
  let ?w = "\<lparr>w_sink = RamSink, w_data = [], w_closed = False\<rparr>"
  let ?H = "handleDownload_binary ex_env None Map.empty ex_conn ex_dl_ram [7, 7, 7]"
  let ?R = "receive ex_env Map.empty ex_conn ex_dl_ram [(None, [7, 7, 7]), (None, [1, 2])]"
  have d: "unat (d_offset ex_dl_ram) = 0 \<and> unat (d_length ex_dl_ram) = 5
      \<and> d_offset ex_dl_ram = 0 \<and> d_writer ex_dl_ram = Some ?w"
    by (simp add: ex_dl_ram_def ex_dl_proc_def ex_dl_def)
  have h: "?H = (fst ?H, fst (snd ?H), fst (snd (snd ?H)), snd (snd (snd ?H)))"
    by simp
  have r: "?R = (fst ?R, fst (snd ?R), fst (snd (snd ?R)), snd (snd (snd ?R)))"
    by simp
  from d binary_chunk_guard [where d = ex_dl_ram and bs = "[1, 2, 3, 4, 5, 6]" and ev = ex_env
      and wr = None and fs = Map.empty and p = ex_conn, THEN conjunct1]
  have x: "handleDownload_binary ex_env None Map.empty ex_conn ex_dl_ram [1, 2, 3, 4, 5, 6] =
     (Some (ErrBinaryTooLong 6), ex_dl_ram, ex_conn, Map.empty)"
    by simp
  from d h binary_chunk_guard [where d = ex_dl_ram and bs = "[7, 7, 7]" and ev = ex_env
      and wr = None and fs = Map.empty and p = ex_conn and w = ?w and err = "fst ?H"
      and d' = "fst (snd ?H)" and p' = "fst (snd (snd ?H))" and fs' = "snd (snd (snd ?H))",
      THEN conjunct2, THEN conjunct1]
  have y: "unat (d_offset (fst (snd ?H))) = 3
      \<and> (\<exists>w'. d_writer (fst (snd ?H)) = Some w' \<and> w_data w' = [7, 7, 7])"
    by simp
  from d r binary_chunk_guard [where d = ex_dl_ram and ev = ex_env
      and chunks = "[(None, [7, 7, 7]), (None, [1, 2])]"
      and fs = Map.empty and p = ex_conn and w = ?w and err = "fst ?R"
      and d' = "fst (snd ?R)" and p' = "fst (snd (snd ?R))" and fs' = "snd (snd (snd ?R))",
      THEN conjunct2, THEN conjunct2]
  have z: "\<exists>w'. d_writer (fst (snd ?R)) = Some w' \<and> length (w_data w') \<le> 5"
    by simp
  from x y z show ?thesis by blast
qed


subsection \<open>Validation of a completed file\<close>










end
